theory Spec2Isabelle
  imports Complex_Main "HOL-Library.Sublist"
begin

section \<open>Conventions of the embedding\<close>

text \<open>
  The development embeds the ingestion module of the wallet tracker
  (\<^verbatim>\<open>src/unnamed/part_000\<close>: the classes \<^verbatim>\<open>TransactionFilters\<close> and
  \<^verbatim>\<open>HeliusWebSocketBackend\<close>).

  \<^item> A JavaScript string is a \<^typ>\<open>string\<close> of ASCII characters; \<^verbatim>\<open>length\<close> is the list
    length. Case mapping and \<^verbatim>\<open>trim\<close> act on the ASCII letters and the ASCII white space.
  \<^item> A field that may be \<^verbatim>\<open>undefined\<close> or \<^verbatim>\<open>null\<close> is an \<^typ>\<open>'a option\<close>; a string is
    falsy when it is absent or empty.
  \<^item> \<^verbatim>\<open>this\<close> is a record that every method takes and returns. What a method sends to
    the outside (HTTP requests, socket traffic, calls of the registered handler) is
    appended to the field \<open>effects\<close> in the order of the calls.
  \<^item> An exception that leaves a method is the \<open>Inl\<close> branch of a sum.
  \<^item> Readings of the clock, and what an awaited request comes back with, are parameters
    of the methods that use them. A method that awaits runs to its end in one piece: no
    other callback runs in between.
\<close>

subsection \<open>Strings\<close>

definition lower_letters :: string where
  "lower_letters = ''abcdefghijklmnopqrstuvwxyz''"

definition upper_letters :: string where
  "upper_letters = ''ABCDEFGHIJKLMNOPQRSTUVWXYZ''"

definition toUpperChar :: "char \<Rightarrow> char" where
  "toUpperChar c = (case map_of (zip lower_letters upper_letters) c of Some u \<Rightarrow> u | None \<Rightarrow> c)"

definition toLowerChar :: "char \<Rightarrow> char" where
  "toLowerChar c = (case map_of (zip upper_letters lower_letters) c of Some l \<Rightarrow> l | None \<Rightarrow> c)"

definition toUpperCase :: "string \<Rightarrow> string" where
  "toUpperCase s = map toUpperChar s"

definition toLowerCase :: "string \<Rightarrow> string" where
  "toLowerCase s = map toLowerChar s"

definition white_space :: "char \<Rightarrow> bool" where
  "white_space c \<longleftrightarrow> c \<in> set [CHR '' '', CHR 0x09, CHR 0x0A, CHR 0x0B, CHR 0x0C, CHR 0x0D]"

definition trim :: "string \<Rightarrow> string" where
  "trim s = rev (dropWhile white_space (rev (dropWhile white_space s)))"

text \<open>\<^verbatim>\<open>s.includes(t)\<close>: \<open>t\<close> occurs in \<open>s\<close> as a contiguous substring.\<close>

definition str_includes :: "string \<Rightarrow> string \<Rightarrow> bool" where
  "str_includes s t \<longleftrightarrow> sublist t s"

text \<open>Truthiness of an optional string: present and not empty.\<close>

fun truthy :: "string option \<Rightarrow> bool" where
  "truthy None = False"
| "truthy (Some s) = (s \<noteq> [])"

section \<open>Numbers\<close>

text \<open>
  A JavaScript number is modelled as an exact rational, or \<^verbatim>\<open>NaN\<close>. The model agrees with
  the IEEE doubles of the engine as long as the values involved are doubles and no
  operation rounds; rounding to the nearest double, overflow to \<^verbatim>\<open>Infinity\<close>, the literal
  \<^verbatim>\<open>Infinity\<close> and the exponent notation of numbers from \<open>10\<^sup>2\<^sup>1\<close> on are outside it.
  A comparison with \<^verbatim>\<open>NaN\<close> is false.
\<close>

datatype number = Finite rat | NaN

fun num_ge :: "number \<Rightarrow> rat \<Rightarrow> bool" where
  "num_ge (Finite a) b = (b \<le> a)"
| "num_ge NaN b = False"

fun num_lt :: "number \<Rightarrow> rat \<Rightarrow> bool" where
  "num_lt (Finite a) b = (a < b)"
| "num_lt NaN b = False"

fun num_gt :: "number \<Rightarrow> number \<Rightarrow> bool" where
  "num_gt (Finite a) (Finite b) = (b < a)"
| "num_gt _ _ = False"

fun num_div :: "number \<Rightarrow> rat \<Rightarrow> number" where
  "num_div (Finite a) b = Finite (a / b)"
| "num_div NaN b = NaN"

fun num_add :: "number \<Rightarrow> number \<Rightarrow> number" where
  "num_add (Finite a) (Finite b) = Finite (a + b)"
| "num_add _ _ = NaN"

fun num_abs :: "number \<Rightarrow> number" where
  "num_abs (Finite a) = Finite \<bar>a\<bar>"
| "num_abs NaN = NaN"

subsection \<open>Reading and printing numbers\<close>

text \<open>The value of a digit, up to radix 16.\<close>

definition digit_value :: "char \<Rightarrow> nat option" where
  "digit_value c =
     map_of (zip ''0123456789abcdef'' [0, 1, 2, 3, 4, 5, 6, 7, 8, 9, 10, 11, 12, 13, 14, 15]
             @ zip ''ABCDEF'' [10, 11, 12, 13, 14, 15]) c"

definition is_digit :: "nat \<Rightarrow> char \<Rightarrow> bool" where
  "is_digit radix c \<longleftrightarrow> (case digit_value c of None \<Rightarrow> False | Some v \<Rightarrow> v < radix)"

definition digits_value :: "nat \<Rightarrow> string \<Rightarrow> nat" where
  "digits_value radix ds = foldl (\<lambda>acc c. radix * acc + the (digit_value c)) 0 ds"

text \<open>The decimal digits of a natural number (\<^verbatim>\<open>toString\<close> of a non-negative integer).\<close>

fun digits_of :: "nat \<Rightarrow> string" where
  "digits_of n =
     (if n < 10 then [''0123456789'' ! n]
      else digits_of (n div 10) @ [''0123456789'' ! (n mod 10)])"

declare digits_of.simps [simp del]

text \<open>An optional sign in front of a literal.\<close>

definition split_sign :: "string \<Rightarrow> int \<times> string" where
  "split_sign s =
     (case s of
        c # r \<Rightarrow> if c = CHR ''-'' then (-1, r) else if c = CHR ''+'' then (1, r) else (1, s)
      | [] \<Rightarrow> (1, s))"

text \<open>The exponent part of a decimal literal, when there is a well-formed one.\<close>

definition parse_exponent :: "string \<Rightarrow> int" where
  "parse_exponent r =
     (case r of
        c # r1 \<Rightarrow>
          if c = CHR ''e'' \<or> c = CHR ''E'' then
            (let (sg, r2) = split_sign r1; ds = takeWhile (is_digit 10) r2
             in if ds = [] then 0 else sg * int (digits_value 10 ds))
          else 0
      | [] \<Rightarrow> 0)"

text \<open>
  \<^verbatim>\<open>parseFloat\<close>: leading white space is skipped and the longest prefix that is a
  decimal literal (sign, digits, fraction, exponent) is read; \<^verbatim>\<open>NaN\<close> when there is none.
\<close>

definition parseFloat :: "string \<Rightarrow> number" where
  "parseFloat s =
     (let (sg, s1) = split_sign (dropWhile white_space s);
          ip = takeWhile (is_digit 10) s1;
          r1 = dropWhile (is_digit 10) s1;
          fp = (case r1 of c # r \<Rightarrow> if c = CHR ''.'' then takeWhile (is_digit 10) r else [] | [] \<Rightarrow> []);
          r2 = (case r1 of c # r \<Rightarrow> if c = CHR ''.'' then dropWhile (is_digit 10) r else r1 | [] \<Rightarrow> [])
      in if ip = [] \<and> fp = [] then NaN
         else Finite (of_int sg * of_nat (digits_value 10 (ip @ fp)) / 10 ^ length fp
                      * 10 powi parse_exponent r2))"

text \<open>\<^verbatim>\<open>parseInt\<close> without a radix argument: \<open>None\<close> is \<^verbatim>\<open>NaN\<close>.\<close>

definition parseInt :: "string \<Rightarrow> int option" where
  "parseInt s =
     (let (sg, s1) = split_sign (dropWhile white_space s);
          hex = (take 2 s1 = ''0x'' \<or> take 2 s1 = ''0X'');
          radix = (if hex then 16 else 10);
          ds = takeWhile (is_digit radix) (if hex then drop 2 s1 else s1)
      in if ds = [] then None else Some (sg * int (digits_value radix ds)))"

text \<open>
  \<^verbatim>\<open>BigInt(string)\<close>: the trimmed string is empty (zero), a signed decimal literal or an
  unsigned literal with a radix prefix; \<open>None\<close> is the \<^verbatim>\<open>SyntaxError\<close>.
\<close>

definition radix_literal :: "nat \<Rightarrow> string \<Rightarrow> int option" where
  "radix_literal radix ds =
     (if ds \<noteq> [] \<and> list_all (is_digit radix) ds then Some (int (digits_value radix ds)) else None)"

definition BigInt_of_string :: "string \<Rightarrow> int option" where
  "BigInt_of_string s =
     (let t = trim s in
      if t = [] then Some 0
      else if take 2 t = ''0x'' \<or> take 2 t = ''0X'' then radix_literal 16 (drop 2 t)
      else if take 2 t = ''0o'' \<or> take 2 t = ''0O'' then radix_literal 8 (drop 2 t)
      else if take 2 t = ''0b'' \<or> take 2 t = ''0B'' then radix_literal 2 (drop 2 t)
      else (let (sg, ds) = split_sign t
            in map_option (\<lambda>v. sg * v) (radix_literal 10 ds)))"

text \<open>
  \<^verbatim>\<open>BigInt(10 ** decimals)\<close>. The double \<^verbatim>\<open>10 ** d\<close> is the exact power for \<open>0 \<le> d \<le> 22\<close>.
  For \<open>d < 0\<close> it is a fraction (or underflows to zero, and the division by it raises),
  and beyond 308 it is \<^verbatim>\<open>Infinity\<close>: \<^verbatim>\<open>BigInt\<close> raises a \<^verbatim>\<open>RangeError\<close>, the \<open>None\<close> here. In
  between the double is only near the power; the model takes the double nearest to it
  (53 significant bits, ties to even), which is what a correctly rounded power gives.
\<close>

fun bit_length :: "nat \<Rightarrow> nat" where
  "bit_length n = (if n = 0 then 0 else Suc (bit_length (n div 2)))"

declare bit_length.simps [simp del]

definition nearest_double :: "nat \<Rightarrow> nat" where
  "nearest_double n =
     (let k = bit_length n in
      if k \<le> 53 then n
      else (let e = k - 53; q = n div 2 ^ e; r = n mod 2 ^ e; h = 2 ^ (e - 1);
                q' = (if h < r \<or> (r = h \<and> odd q) then q + 1 else q)
            in q' * 2 ^ e))"

definition BigInt_pow10 :: "int \<Rightarrow> int option" where
  "BigInt_pow10 d =
     (if d < 0 \<or> 308 < d then None else Some (int (nearest_double (10 ^ nat d))))"

text \<open>
  \<^verbatim>\<open>toFixed(d)\<close>: the magnitude is rounded to \<open>d\<close> fraction digits, a tie going up, and
  printed with all \<open>d\<close> digits; a negative number keeps its sign.
\<close>

definition round_half_up :: "rat \<Rightarrow> nat" where
  "round_half_up x = nat \<lfloor>x + 1 / 2\<rfloor>"

definition fixed_digits :: "nat \<Rightarrow> nat \<Rightarrow> string" where
  "fixed_digits d n =
     (let ds = digits_of n;
          padded = replicate (Suc d - length ds) CHR ''0'' @ ds;
          ip = take (length padded - d) padded;
          fp = drop (length padded - d) padded
      in if d = 0 then ip else ip @ ''.'' @ fp)"

definition toFixed :: "nat \<Rightarrow> number \<Rightarrow> string" where
  "toFixed d x =
     (case x of
        NaN \<Rightarrow> ''NaN''
      | Finite q \<Rightarrow> (if q < 0 then ''-'' else '''') @ fixed_digits d (round_half_up (\<bar>q\<bar> * 10 ^ d)))"

text \<open>
  \<^verbatim>\<open>toLocaleString('en-US', { minimumFractionDigits: 0, maximumFractionDigits: 6 })\<close>:
  rounded to six fraction digits, the integer part grouped in thousands, trailing zeros
  of the fraction (and an empty fraction's point) dropped.
\<close>

fun group_rev :: "string \<Rightarrow> string" where
  "group_rev (a # b # c # d # r) = a # b # c # CHR '','' # group_rev (d # r)"
| "group_rev ds = ds"

definition toLocaleString :: "number \<Rightarrow> string" where
  "toLocaleString x =
     (case x of
        NaN \<Rightarrow> ''NaN''
      | Finite q \<Rightarrow>
          (let n = round_half_up (\<bar>q\<bar> * 10 ^ 6);
               ip = rev (group_rev (rev (digits_of (n div 10 ^ 6))));
               fd = digits_of (n mod 10 ^ 6);
               fp = rev (dropWhile (\<lambda>c. c = CHR ''0'') (rev (replicate (6 - length fd) CHR ''0'' @ fd)))
           in (if q < 0 then ''-'' else '''') @ ip @ (if fp = [] then [] else ''.'' @ fp)))"

subsection \<open>Formatting amounts\<close>

definition formatAmountWithUnits :: "number \<Rightarrow> string" where
  "formatAmountWithUnits decimalAmount =
     (if num_ge decimalAmount 1000000000 then toFixed 2 (num_div decimalAmount 1000000000) @ ''B tokens''
      else if num_ge decimalAmount 1000000 then toFixed 2 (num_div decimalAmount 1000000) @ ''M tokens''
      else if num_ge decimalAmount 1000 then toFixed 2 (num_div decimalAmount 1000) @ ''K tokens''
      else if num_ge decimalAmount 1 then toLocaleString decimalAmount @ '' tokens''
      else toFixed 6 decimalAmount @ '' tokens'')"

text \<open>The second argument of \<^verbatim>\<open>formatTokenAmount\<close>: a number (an integer here) or a string
  such as the \<^verbatim>\<open>tokenStandard\<close> of the upstream.\<close>

datatype precision = Digits int | Label string

text \<open>Division and remainder of \<^verbatim>\<open>BigInt\<close> truncate towards zero.\<close>

definition tdiv :: "int \<Rightarrow> int \<Rightarrow> int" where
  "tdiv a b = sgn a * sgn b * (\<bar>a\<bar> div \<bar>b\<bar>)"

definition tmod :: "int \<Rightarrow> int \<Rightarrow> int" where
  "tmod a b = sgn a * (\<bar>a\<bar> mod \<bar>b\<bar>)"

text \<open>
  \<^verbatim>\<open>formatTokenAmount(rawAmount, decimals)\<close>; \<open>rawAmount = None\<close> is \<^verbatim>\<open>null\<close> or
  \<^verbatim>\<open>undefined\<close>. Every exception inside is caught and gives \<^verbatim>\<open>'N/A'\<close>.
\<close>

definition formatTokenAmount :: "string option \<Rightarrow> precision \<Rightarrow> string" where
  "formatTokenAmount rawAmount decimals0 =
     (case rawAmount of
        None \<Rightarrow> ''N/A''
      | Some amountStr \<Rightarrow>
          if amountStr = [] then ''N/A''
          else
            (let decimals =
                   (case decimals0 of
                      Digits d \<Rightarrow> d
                    | Label l \<Rightarrow>
                        if l = ''Fungible'' then 6
                        else (case parseInt l of Some parsedDecimals \<Rightarrow> parsedDecimals | None \<Rightarrow> 9))
             in if CHR ''.'' \<in> set amountStr then
                  (case parseFloat amountStr of
                     NaN \<Rightarrow> ''N/A''
                   | decimalAmount \<Rightarrow> formatAmountWithUnits decimalAmount)
                else
                  (case BigInt_of_string amountStr of
                     None \<Rightarrow> ''N/A''
                   | Some rawAmountBigInt \<Rightarrow>
                       (case BigInt_pow10 decimals of
                          None \<Rightarrow> ''N/A''
                        | Some divisor \<Rightarrow>
                            (let wholePart = tdiv rawAmountBigInt divisor;
                                 remainder = tmod rawAmountBigInt divisor;
                                 decimalAmount = Finite (of_int wholePart + of_int remainder / of_int divisor)
                             in formatAmountWithUnits decimalAmount)))))"

text \<open>\<^verbatim>\<open>formatSOLAmountDirect\<close>; \<^verbatim>\<open>parseFloat\<close> of a number gives the number back.\<close>

definition formatSOLAmountDirect :: "number \<Rightarrow> string" where
  "formatSOLAmountDirect amount =
     (if num_ge amount 1000 then toFixed 2 (num_div amount 1000) @ ''K SOL''
      else if num_ge amount 1 then toFixed 3 amount @ '' SOL''
      else if num_ge amount (1 / 1000) then toFixed 4 amount @ '' SOL''
      else toFixed 6 amount @ '' SOL'')"

section \<open>TransactionFilters\<close>

text \<open>The candidate event built by the pipeline (\<^verbatim>\<open>transactionData\<close>).
  The fields \<open>buySell\<close> and \<open>solAmount\<close> are carried by the enhanced event only, and
  no event carries \<open>mintAddress\<close>; \<open>txType\<close> is the field \<^verbatim>\<open>type\<close>.\<close>

record transaction_data =
  signature :: string
  wallet :: "string option"
  token :: "string option"
  amount :: string
  buySell :: "string option"
  solAmount :: "number option"
  txType :: "string option"
  timestamp :: string
  mintAddress :: "string option"

definition blacklistedTokens :: "string list" where
  "blacklistedTokens =
     [''Unknown'', ''N/A'', '''', ''?'', ''-'', ''UNK'', ''UNKNOWN'',
      ''SOL'', ''WSOL'', ''wSOL'', ''cwSOL'', ''cSOL'', ''stSOL'', ''mSOL'', ''jitoSOL'', ''bSOL'']"

definition blacklistedWalletNames :: "string list" where
  "blacklistedWalletNames =
     [''Activity'', ''Activity...'', ''Activity Detected'', ''Transaction Detected'',
      ''Account Update'', ''Account Change'', ''Unknown'', ''Fallback'', ''Generic Transaction'']"

definition blacklistedTransactionTypes :: "string list" where
  "blacklistedTransactionTypes =
     [''fallback'', ''account_change'', ''system_transaction'', ''generic_activity'']"

definition isTokenBlacklisted :: "string option \<Rightarrow> bool" where
  "isTokenBlacklisted tok =
     (if \<not> truthy tok then True
      else (let normalizedToken = toUpperCase (trim (the tok))
            in list_ex (\<lambda>blacklisted. normalizedToken = toUpperCase blacklisted) blacklistedTokens))"

definition isWalletNameBlacklisted :: "string option \<Rightarrow> bool" where
  "isWalletNameBlacklisted walletName =
     (if \<not> truthy walletName then False
      else (let normalizedName = trim (the walletName)
            in list_ex (\<lambda>blacklisted. str_includes normalizedName blacklisted) blacklistedWalletNames))"

definition isTransactionTypeBlacklisted :: "string option \<Rightarrow> bool" where
  "isTransactionTypeBlacklisted ty =
     (if \<not> truthy ty then False else the ty \<in> set blacklistedTransactionTypes)"

definition hasValidTokenLength :: "string option \<Rightarrow> bool" where
  "hasValidTokenLength tok =
     (if \<not> truthy tok then False else 2 \<le> length (trim (the tok)))"

text \<open>The argument is \<open>None\<close> when the caller passes no object.\<close>

definition shouldShowTransaction :: "transaction_data option \<Rightarrow> bool" where
  "shouldShowTransaction arg =
     (case arg of
        None \<Rightarrow> False
      | Some transactionData \<Rightarrow>
          if truthy (token transactionData) \<and> token transactionData \<noteq> Some ''SOL''
             \<and> token transactionData \<noteq> Some ''WSOL''
             \<and> 2 \<le> length (the (token transactionData))
             \<and> \<not> isTokenBlacklisted (token transactionData)
          then True
          else if isTokenBlacklisted (token transactionData) then False
          else if isWalletNameBlacklisted (wallet transactionData) then False
          else if isTransactionTypeBlacklisted (txType transactionData) then False
          else if \<not> hasValidTokenLength (token transactionData) then False
          else if txType transactionData = Some ''enhanced_transaction''
                  \<and> \<not> truthy (mintAddress transactionData) then False
          else True)"

section \<open>HeliusWebSocketBackend: state\<close>

text \<open>A cache entry, and the placeholder returned for an asset without one. The
  placeholder \<^verbatim>\<open>{ symbol: 'N/A', image: null }\<close> has no \<^verbatim>\<open>expiry\<close> field.\<close>

record token_info =
  symbol :: string
  image :: "string option"
  expiry :: "int option"

definition placeholder :: token_info where
  "placeholder = \<lparr>symbol = ''N/A'', image = None, expiry = None\<rparr>"

text \<open>What the backend sends out. The key is what \<^verbatim>\<open>getCurrentApiKey()\<close> returned when the
  URL was built.\<close>

datatype effect =
    OpenSocket "string option"
  | CloseAndReconnect
  | Subscribe string
  | EnhancedRequest "string option" string
  | AssetBatchRequest "string option" "string list"
  | Handed transaction_data

datatype error = TypeError

text \<open>
  The fields of \<^verbatim>\<open>this\<close> that the modelled methods read or write. \<open>trackedWallets\<close> is a
  JavaScript \<^verbatim>\<open>Set\<close>: a duplicate-free list in insertion order. \<open>tokenInfoCache\<close> is a
  \<^verbatim>\<open>Map\<close>. The handler \<open>onTransactionReceived\<close> answers whether its call returned
  (\<open>True\<close>) or threw (\<open>False\<close>). The two request queues and their timestamps only
  delay a request and are not part of the state: a queued request is run at once.
\<close>

record backend =
  heliusApiKeys :: "string list"
  currentApiKeyIndex :: nat
  callsPerKey :: nat
  maxCallsPerRotation :: nat
  trackedWallets :: "string list"
  isConnected :: bool
  tokenInfoCache :: "string \<rightharpoonup> token_info"
  cacheExpiry :: int
  onTransactionReceived :: "(transaction_data \<Rightarrow> bool) option"
  effects :: "effect list"

text \<open>The state the constructor builds. Each key of the pool is cut to its first eight
  characters, as the log lines of the rotation print it.\<close>

definition initial_backend :: backend where
  "initial_backend =
     \<lparr>heliusApiKeys = [''1db40a7c'', ''8022b6b9'', ''0ab96068'', ''4e0ae544'', ''0dc33dba''],
      currentApiKeyIndex = 0,
      callsPerKey = 0,
      maxCallsPerRotation = 100,
      trackedWallets = [],
      isConnected = False,
      tokenInfoCache = Map.empty,
      cacheExpiry = 5 * 60 * 1000,
      onTransactionReceived = None,
      effects = []\<rparr>"

definition emit :: "effect \<Rightarrow> backend \<Rightarrow> backend" where
  "emit e s = s\<lparr>effects := effects s @ [e]\<rparr>"

section \<open>Rotation of the API keys\<close>

text \<open>\<^verbatim>\<open>this.heliusApiKeys[this.currentApiKeyIndex]\<close>: \<^verbatim>\<open>undefined\<close> outside the pool.\<close>

definition getCurrentApiKey :: "backend \<Rightarrow> string option" where
  "getCurrentApiKey s =
     (if currentApiKeyIndex s < length (heliusApiKeys s)
      then Some (heliusApiKeys s ! currentApiKeyIndex s) else None)"

text \<open>\<^verbatim>\<open>reconnectWithNewApiKey\<close> closes the socket and schedules \<^verbatim>\<open>connect\<close>.\<close>

definition reconnectWithNewApiKey :: "backend \<Rightarrow> backend" where
  "reconnectWithNewApiKey s = emit CloseAndReconnect s"

text \<open>
  The step both rotations share: the index moves on, the counter is cleared, the two
  keys are read for the log line (\<^verbatim>\<open>heliusApiKeys[oldIndex].substring\<close> raises a
  \<^verbatim>\<open>TypeError\<close> when the old index is outside the pool), and an open connection is
  re-established.
\<close>

definition rotate :: "backend \<Rightarrow> error + backend" where
  "rotate s =
     (let oldIndex = currentApiKeyIndex s;
          s1 = s\<lparr>currentApiKeyIndex := (currentApiKeyIndex s + 1) mod length (heliusApiKeys s),
                  callsPerKey := 0\<rparr>
      in if \<not> oldIndex < length (heliusApiKeys s) then Inl TypeError
         else if getCurrentApiKey s1 = None then Inl TypeError
         else if isConnected s1 then Inr (reconnectWithNewApiKey s1)
         else Inr s1)"

definition rotateApiKeyByTime :: "backend \<Rightarrow> error + backend" where
  "rotateApiKeyByTime s = rotate s"

definition rotateApiKeyByUsage :: "backend \<Rightarrow> error + backend" where
  "rotateApiKeyByUsage s =
     (let s1 = s\<lparr>callsPerKey := callsPerKey s + 1\<rparr>
      in if maxCallsPerRotation s1 \<le> callsPerKey s1 then rotate s1 else Inr s1)"

section \<open>Tracked wallets\<close>

text \<open>The character class \<^verbatim>\<open>[1-9A-HJ-NP-Za-km-z]\<close>, range by range.\<close>

definition base58_chars :: string where
  "base58_chars = ''123456789'' @ ''ABCDEFGH'' @ ''JKLMN'' @ ''PQRSTUVWXYZ''
                  @ ''abcdefghijk'' @ ''mnopqrstuvwxyz''"

text \<open>\<^verbatim>\<open>/^[1-9A-HJ-NP-Za-km-z]{32,44}$/.test(address)\<close>: the whole string is 32 to 44
  characters of the class (without the \<^verbatim>\<open>m\<close> flag, \<^verbatim>\<open>$\<close> is the end of the input).\<close>

definition validateWalletAddress :: "string \<Rightarrow> bool" where
  "validateWalletAddress address \<longleftrightarrow>
     32 \<le> length address \<and> length address \<le> 44 \<and> list_all (\<lambda>c. c \<in> set base58_chars) address"

text \<open>The pattern as the specification words it: between 32 and 44 characters, each
  in one of the ranges \<^verbatim>\<open>1-9\<close>, \<^verbatim>\<open>A-H\<close>, \<^verbatim>\<open>J-N\<close>, \<^verbatim>\<open>P-Z\<close>, \<^verbatim>\<open>a-k\<close>, \<^verbatim>\<open>m-z\<close> of the
  character codes.\<close>

definition in_range :: "char \<Rightarrow> char \<Rightarrow> char \<Rightarrow> bool" where
  "in_range lo hi c \<longleftrightarrow> (of_char lo :: nat) \<le> of_char c \<and> (of_char c :: nat) \<le> of_char hi"

definition matches_base58_pattern :: "string \<Rightarrow> bool" where
  "matches_base58_pattern address \<longleftrightarrow>
     length address \<in> {32..44} \<and>
     (\<forall>c \<in> set address.
        in_range CHR ''1'' CHR ''9'' c \<or> in_range CHR ''A'' CHR ''H'' c \<or> in_range CHR ''J'' CHR ''N'' c
        \<or> in_range CHR ''P'' CHR ''Z'' c \<or> in_range CHR ''a'' CHR ''k'' c \<or> in_range CHR ''m'' CHR ''z'' c)"

text \<open>\<^verbatim>\<open>Set.prototype.add\<close>.\<close>

definition set_add :: "string list \<Rightarrow> string \<Rightarrow> string list" where
  "set_add ws w = (if w \<in> set ws then ws else ws @ [w])"

definition connect :: "backend \<Rightarrow> backend" where
  "connect s =
     (if trackedWallets s = [] then s\<lparr>isConnected := False\<rparr>
      else emit (OpenSocket (getCurrentApiKey s)) s)"

definition subscribeToWallet :: "string \<Rightarrow> backend \<Rightarrow> backend" where
  "subscribeToWallet walletAddress s = emit (Subscribe walletAddress) s"

definition addWallet :: "string \<Rightarrow> backend \<Rightarrow> backend \<times> bool" where
  "addWallet walletAddress s =
     (if validateWalletAddress walletAddress then
        (let wasEmpty = (trackedWallets s = []);
             s1 = s\<lparr>trackedWallets := set_add (trackedWallets s) walletAddress\<rparr>
         in if wasEmpty \<and> \<not> isConnected s1 then (connect s1, True)
            else if isConnected s1 then (subscribeToWallet walletAddress s1, True)
            else (s1, True))
      else (s, False))"

section \<open>Token metadata cache and the asset batch\<close>

text \<open>\<^verbatim>\<open>purgeExpiredCache\<close>, run by a timer every five minutes with the clock reading
  \<open>now\<close>: an entry goes when \<^verbatim>\<open>value.expiry && value.expiry < now\<close>.\<close>

definition expired :: "int \<Rightarrow> token_info \<Rightarrow> bool" where
  "expired now v = (case expiry v of None \<Rightarrow> False | Some e \<Rightarrow> e \<noteq> 0 \<and> e < now)"

definition purgeExpiredCache :: "int \<Rightarrow> backend \<Rightarrow> backend" where
  "purgeExpiredCache now s =
     s\<lparr>tokenInfoCache :=
         (\<lambda>key. case tokenInfoCache s key of
                   None \<Rightarrow> None
                 | Some v \<Rightarrow> if expired now v then None else Some v)\<rparr>"

text \<open>One element of \<^verbatim>\<open>response.data.result\<close>; \<open>None\<close> in the list is a \<^verbatim>\<open>null\<close> element.
  \<open>metadata_symbol\<close> is \<^verbatim>\<open>content.metadata?.symbol\<close>, \<open>links_image\<close> is
  \<^verbatim>\<open>content.links?.image\<close>.\<close>

record asset_content =
  metadata_symbol :: "string option"
  links_image :: "string option"

record asset =
  asset_id :: "string option"
  content :: "asset_content option"

text \<open>What the POST of \<^verbatim>\<open>getAssetBatch\<close> comes back with: an exception (transport
  error, timeout), a body without \<^verbatim>\<open>result\<close>, or a result list.\<close>

datatype asset_batch_response =
    BatchFailed
  | BatchNoResult
  | BatchResult "asset option list"

definition tokenInfo_of :: "int \<Rightarrow> int \<Rightarrow> asset_content \<Rightarrow> token_info" where
  "tokenInfo_of now ttl c =
     \<lparr>symbol = (if truthy (metadata_symbol c) then the (metadata_symbol c) else ''N/A''),
      image = (if truthy (links_image c) then links_image c else None),
      expiry = Some (now + ttl)\<rparr>"

text \<open>The body of the \<^verbatim>\<open>forEach\<close> that updates the cache. The loop is synchronous; the
  model reads the clock once for it.\<close>

definition cacheAsset :: "int \<Rightarrow> int \<Rightarrow> asset option \<Rightarrow> (string \<rightharpoonup> token_info) \<Rightarrow> (string \<rightharpoonup> token_info)" where
  "cacheAsset now ttl a cache =
     (case a of
        None \<Rightarrow> cache
      | Some x \<Rightarrow>
          if truthy (asset_id x) \<and> content x \<noteq> None
          then cache(the (asset_id x) \<mapsto> tokenInfo_of now ttl (the (content x)))
          else cache)"

definition updateCache :: "int \<Rightarrow> int \<Rightarrow> asset option list \<Rightarrow> (string \<rightharpoonup> token_info) \<Rightarrow> (string \<rightharpoonup> token_info)" where
  "updateCache now ttl assets cache = fold (cacheAsset now ttl) assets cache"

definition cached_or_placeholder :: "(string \<rightharpoonup> token_info) \<Rightarrow> string \<Rightarrow> token_info" where
  "cached_or_placeholder cache mint = (case cache mint of Some cached \<Rightarrow> cached | None \<Rightarrow> placeholder)"

text \<open>
  \<^verbatim>\<open>fetchAssetInfoDirect\<close>: one rotation slot is used (outside the \<^verbatim>\<open>try\<close>), the request
  body carries \<^verbatim>\<open>ids: mintAddresses\<close>, and the answer is mapped over \<^verbatim>\<open>mintAddresses\<close>.
\<close>

definition fetchAssetInfoDirect ::
  "string list \<Rightarrow> int \<Rightarrow> asset_batch_response \<Rightarrow> backend \<Rightarrow> error + (backend \<times> token_info list)" where
  "fetchAssetInfoDirect mintAddresses now response s =
     (case rotateApiKeyByUsage s of
        Inl e \<Rightarrow> Inl e
      | Inr s1 \<Rightarrow>
          (let s2 = emit (AssetBatchRequest (getCurrentApiKey s1) mintAddresses) s1
           in case response of
                BatchResult assets \<Rightarrow>
                  (let s3 = s2\<lparr>tokenInfoCache :=
                                 updateCache now (cacheExpiry s2) assets (tokenInfoCache s2)\<rparr>
                   in Inr (s3, map (cached_or_placeholder (tokenInfoCache s3)) mintAddresses))
              | BatchNoResult \<Rightarrow> Inr (s2, map (\<lambda>_. placeholder) mintAddresses)
              | BatchFailed \<Rightarrow> Inr (s2, map (\<lambda>_. placeholder) mintAddresses)))"

text \<open>
  \<^verbatim>\<open>getAssetInfo\<close> for an array argument. When every id has a cache entry the entries
  are returned; otherwise the request \<^verbatim>\<open>{ mintAddresses, resolve }\<close> is queued, and
  \<^verbatim>\<open>processAssetBatchQueue\<close> hands its \<^verbatim>\<open>mintAddresses\<close> to \<^verbatim>\<open>fetchAssetInfoDirect\<close>.
\<close>

definition getAssetInfo ::
  "string list \<Rightarrow> int \<Rightarrow> asset_batch_response \<Rightarrow> backend \<Rightarrow> error + (backend \<times> token_info list)" where
  "getAssetInfo mintAddresses now response s =
     (let cachedInfo = List.map_filter (tokenInfoCache s) mintAddresses
      in if length cachedInfo = length mintAddresses then Inr (s, cachedInfo)
         else fetchAssetInfoDirect mintAddresses now response s)"

section \<open>Observations and scenarios\<close>

text \<open>The id lists of the \<^verbatim>\<open>getAssetBatch\<close> requests among the effects, oldest first.\<close>


fun batch_requests :: "effect list \<Rightarrow> string list list" where
  "batch_requests [] = []"
| "batch_requests (AssetBatchRequest key ids # es) = ids # batch_requests es"
| "batch_requests (e # es) = batch_requests es"

text \<open>An element of the upstream result that the \<^verbatim>\<open>forEach\<close> stores:
  \<^verbatim>\<open>asset && asset.id && asset.content\<close>.\<close>


definition fetched :: "asset option \<Rightarrow> bool" where
  "fetched a \<longleftrightarrow> (case a of None \<Rightarrow> False | Some x \<Rightarrow> truthy (asset_id x) \<and> content x \<noteq> None)"

definition requests_and_result ::
  "error + (backend \<times> token_info list) \<Rightarrow> error + (string list list \<times> token_info list)" where
  "requests_and_result r = map_sum id (\<lambda>(s, infos). (batch_requests (effects s), infos)) r"

text \<open>A backend with two cached assets, and an upstream element for a third.\<close>


definition two_cached :: backend where
  "two_cached = initial_backend
     \<lparr>tokenInfoCache :=
        [''MintA'' \<mapsto> \<lparr>symbol = ''FOO'', image = None, expiry = Some 301000\<rparr>,
         ''MintB'' \<mapsto> \<lparr>symbol = ''BAZ'', image = Some ''b.png'', expiry = Some 301000\<rparr>]\<rparr>"

definition assetC :: asset where
  "assetC = \<lparr>asset_id = Some ''MintC'',
             content = Some \<lparr>metadata_symbol = Some ''BAR'', links_image = None\<rparr>\<rparr>"

text \<open>A timeline: the metadata of \<^verbatim>\<open>MintC\<close> is fetched and stored at clock 1000 (expiry
  301000), the sweep of clock 300000 runs, and \<^verbatim>\<open>MintC\<close> is looked up at clock 400000,
  before the next sweep at 600000. The upstream would fail at that moment.\<close>


definition ttl_scenario :: "error + (string list list \<times> token_info list)" where
  "ttl_scenario =
     (case fetchAssetInfoDirect [''MintC''] 1000 (BatchResult [Some assetC]) initial_backend of
        Inl e \<Rightarrow> Inl e
      | Inr (s1, _) \<Rightarrow>
          requests_and_result
            (getAssetInfo [''MintC''] 400000 BatchFailed (purgeExpiredCache 300000 s1)))"

section \<open>Transfers of an enhanced transaction\<close>

text \<open>
  The record the enrichment API returns for a signature. \<open>kind\<close> is its field \<^verbatim>\<open>type\<close>;
  an absent list of transfers is the empty list (the code treats both alike);
  \<open>accountData\<close> keeps the \<^verbatim>\<open>mint\<close> of each element. \<open>tokenAmount\<close> is the amount as
  \<^verbatim>\<open>toString()\<close> shows it, \<open>nativeAmount\<close> is the field \<^verbatim>\<open>amount\<close> of a native transfer
  (an integer number of lamports).
\<close>

record token_transfer =
  mint :: "string option"
  tokenAmount :: "string option"
  tokenStandard :: "precision option"
  fromUserAccount :: "string option"
  toUserAccount :: "string option"

record native_transfer =
  nativeAmount :: "int option"
  nativeFromUserAccount :: "string option"
  nativeToUserAccount :: "string option"

record enhanced_tx =
  kind :: "string option"
  tokenTransfers :: "token_transfer list"
  nativeTransfers :: "native_transfer list"
  accountData :: "string option list"

text \<open>
  An element of \<^verbatim>\<open>tokenAmounts\<close>. \<open>amountMint\<close>, \<open>sol_amount\<close>, \<open>tradeType\<close>, \<open>amountFrom\<close>
  and \<open>amountTo\<close> are the fields \<^verbatim>\<open>mint\<close>, \<^verbatim>\<open>solAmount\<close>, \<^verbatim>\<open>type\<close>, \<^verbatim>\<open>fromUserAccount\<close> and
  \<^verbatim>\<open>toUserAccount\<close>; the fields \<^verbatim>\<open>amount\<close>, \<^verbatim>\<open>decimals\<close> and \<^verbatim>\<open>rawAmount\<close>, which only
  copy the input and are never read, are left out.
\<close>

record amount_data =
  amountMint :: "string option"
  humanAmount :: string
  sol_amount :: number
  tradeType :: string
  isSOL :: bool
  amountFrom :: "string option"
  amountTo :: "string option"

definition SOL_MINT :: string where
  "SOL_MINT = ''So11111111111111111111111111111111111111112''"

text \<open>\<^verbatim>\<open>account === wallet || account?.includes(wallet)\<close>.\<close>

definition account_matches :: "string option \<Rightarrow> string \<Rightarrow> bool" where
  "account_matches account w =
     (case account of None \<Rightarrow> False | Some a \<Rightarrow> a = w \<or> str_includes a w)"

definition determineBuySell :: "backend \<Rightarrow> token_transfer \<Rightarrow> enhanced_tx \<Rightarrow> bool" where
  "determineBuySell s transfer enhancedTx =
     (let isReceiving = list_ex (account_matches (toUserAccount transfer)) (trackedWallets s);
          isSending = list_ex (account_matches (fromUserAccount transfer)) (trackedWallets s)
      in if isReceiving \<and> \<not> isSending then True
         else if isSending \<and> \<not> isReceiving then False
         else if isSending \<and> isReceiving \<and> kind enhancedTx = Some ''SWAP'' then \<not> isSending
         else True)"

text \<open>\<^verbatim>\<open>transfer.tokenStandard || 9\<close>.\<close>

definition or_nine :: "precision option \<Rightarrow> precision" where
  "or_nine v =
     (case v of
        None \<Rightarrow> Digits 9
      | Some (Digits d) \<Rightarrow> if d = 0 then Digits 9 else Digits d
      | Some (Label l) \<Rightarrow> if l = [] then Digits 9 else Label l)"

text \<open>The body of the loop over \<^verbatim>\<open>tokenTransfers\<close>: \<open>None\<close> when nothing is pushed.\<close>

definition extractTokenTransfer :: "backend \<Rightarrow> enhanced_tx \<Rightarrow> token_transfer \<Rightarrow> amount_data option" where
  "extractTokenTransfer s enhancedTx transfer =
     (let isSOLTransfer = (mint transfer = Some SOL_MINT)
      in if truthy (tokenAmount transfer) \<and> tokenAmount transfer \<noteq> Some ''0'' then
           (let isBuy = determineBuySell s transfer enhancedTx;
                tradeType0 = (if isBuy then ''BUY'' else ''SELL'');
                tradeType1 = (if isSOLTransfer then (if isBuy then ''SELL'' else ''BUY'') else tradeType0);
                human = formatTokenAmount (tokenAmount transfer) (or_nine (tokenStandard transfer));
                tokenAmountStr = the (tokenAmount transfer);
                solValue =
                  (if isSOLTransfer then
                     (if CHR ''.'' \<in> set tokenAmountStr then parseFloat tokenAmountStr
                      else num_div (parseFloat tokenAmountStr) 1000000000)
                   else Finite 0)
            in Some \<lparr>amountMint = mint transfer, humanAmount = human, sol_amount = solValue,
                     tradeType = tradeType1, isSOL = isSOLTransfer,
                     amountFrom = fromUserAccount transfer, amountTo = toUserAccount transfer\<rparr>)
         else None)"

text \<open>The body of the loop over \<^verbatim>\<open>nativeTransfers\<close>; \<^verbatim>\<open>transfer.amount || 0\<close> is zero for
  an absent amount.\<close>

definition extractNativeTransfer :: "native_transfer \<Rightarrow> amount_data option" where
  "extractNativeTransfer transfer =
     (let lamports = (case nativeAmount transfer of None \<Rightarrow> 0 | Some a \<Rightarrow> a);
          solValue = Finite (of_int lamports / 1000000000)
      in if lamports \<noteq> 0 then
           Some \<lparr>amountMint = Some SOL_MINT, humanAmount = formatSOLAmountDirect solValue,
                 sol_amount = solValue, tradeType = (if 0 < lamports then ''BUY'' else ''SELL''),
                 isSOL = True, amountFrom = nativeFromUserAccount transfer,
                 amountTo = nativeToUserAccount transfer\<rparr>
         else None)"

definition extractTokenAmounts :: "backend \<Rightarrow> enhanced_tx \<Rightarrow> amount_data list" where
  "extractTokenAmounts s enhancedTx =
     (let tokenAmounts = List.map_filter (extractTokenTransfer s enhancedTx) (tokenTransfers enhancedTx);
          hasSOLInTokenTransfers = list_ex isSOL tokenAmounts
      in if \<not> hasSOLInTokenTransfers
         then tokenAmounts @ List.map_filter extractNativeTransfer (nativeTransfers enhancedTx)
         else tokenAmounts)"

text \<open>\<^verbatim>\<open>extractMintAddresses\<close>: the truthy mints, each once, in the order of their first
  occurrence.\<close>

definition extractMintAddresses :: "enhanced_tx \<Rightarrow> string list" where
  "extractMintAddresses enhancedTx =
     fold (\<lambda>m mintAddresses. if truthy m then set_add mintAddresses (the m) else mintAddresses)
          (map mint (tokenTransfers enhancedTx) @ accountData enhancedTx) []"

section \<open>Processing a notification\<close>

text \<open>A frame of the socket: a \<^verbatim>\<open>logsNotification\<close> with the signature of
  \<^verbatim>\<open>params.result.value\<close>, or any other frame.\<close>

datatype frame = LogsNotification "string option" | OtherFrame

text \<open>What the POST of the transaction endpoint comes back with: an exception, or the
  array \<^verbatim>\<open>response.data\<close>.\<close>

datatype enhanced_response = EnhancedFailed | EnhancedData "enhanced_tx list"

definition fetchEnhancedTransactionDirect ::
  "string \<Rightarrow> enhanced_response \<Rightarrow> backend \<Rightarrow> error + (backend \<times> enhanced_tx option)" where
  "fetchEnhancedTransactionDirect sig response s =
     (case rotateApiKeyByUsage s of
        Inl e \<Rightarrow> Inl e
      | Inr s1 \<Rightarrow>
          Inr (emit (EnhancedRequest (getCurrentApiKey s1) sig) s1,
               case response of
                 EnhancedFailed \<Rightarrow> None
               | EnhancedData [] \<Rightarrow> None
               | EnhancedData (tx # _) \<Rightarrow> Some tx))"

text \<open>\<^verbatim>\<open>notifyTransaction\<close> calls the registered handler; the flag tells whether the call
  returned.\<close>

definition notifyTransaction :: "transaction_data \<Rightarrow> backend \<Rightarrow> bool \<times> backend" where
  "notifyTransaction transactionData s =
     (case onTransactionReceived s of
        None \<Rightarrow> (True, s)
      | Some handler \<Rightarrow> (handler transactionData, emit (Handed transactionData) s))"

definition fallbackTransaction :: "string \<Rightarrow> string \<Rightarrow> transaction_data" where
  "fallbackTransaction sig ts =
     \<lparr>signature = sig, wallet = Some ''Transaction Detected'', token = Some ''Unknown'',
      amount = ''N/A SOL'', buySell = None, solAmount = None,
      txType = Some ''basic_transaction'', timestamp = ts, mintAddress = None\<rparr>"

definition handleFallbackTransaction :: "string option \<Rightarrow> string \<Rightarrow> backend \<Rightarrow> bool \<times> backend" where
  "handleFallbackTransaction sig ts s =
     (if \<not> truthy sig then (True, s)
      else notifyTransaction (fallbackTransaction (the sig) ts) s)"

text \<open>The test of step 5 on index \<open>i\<close> of the asset array.\<close>

definition validNonSOLToken :: "token_info list \<Rightarrow> string list \<Rightarrow> nat \<Rightarrow> bool" where
  "validNonSOLToken assetInfoArray mintAddresses i =
     (let asset = assetInfoArray ! i; sym = trim (symbol asset)
      in symbol asset \<noteq> []
         \<and> sym \<noteq> ''SOL'' \<and> sym \<noteq> ''WSOL'' \<and> sym \<noteq> ''wSOL''
         \<and> sym \<noteq> ''Unknown'' \<and> sym \<noteq> ''N/A'' \<and> sym \<noteq> '''' \<and> 2 \<le> length sym
         \<and> i < length mintAddresses \<and> mintAddresses ! i \<noteq> [] \<and> mintAddresses ! i \<noteq> SOL_MINT)"

definition selectPrimaryToken :: "token_info list \<Rightarrow> string list \<Rightarrow> token_info option" where
  "selectPrimaryToken assetInfoArray mintAddresses =
     (case filter (validNonSOLToken assetInfoArray mintAddresses) [0 ..< length assetInfoArray] of
        [] \<Rightarrow> None
      | i # _ \<Rightarrow> Some (assetInfoArray ! i))"

text \<open>What step 6 computes from a non-empty list of SOL transfers.\<close>

record sol_analysis =
  totalSOLAmount :: number
  isUserBuying :: bool
  userInvolvedInTransaction :: bool
  actualWalletInvolved :: "string option"

text \<open>\<^verbatim>\<open>solTransfers.reduce(...)\<close> without an initial value.\<close>

definition largestSOLTransfer :: "amount_data list \<Rightarrow> amount_data" where
  "largestSOLTransfer solTransfers =
     foldl (\<lambda>mx current. if num_gt (num_abs (sol_amount current)) (num_abs (sol_amount mx))
                           then current else mx)
           (hd solTransfers) (tl solTransfers)"

definition sum_abs :: "amount_data list \<Rightarrow> number" where
  "sum_abs ts = foldl (\<lambda>acc t. num_add acc (num_abs (sol_amount t))) (Finite 0) ts"

definition analyseSOLTransfers :: "backend \<Rightarrow> amount_data list \<Rightarrow> sol_analysis" where
  "analyseSOLTransfers s solTransfers =
     (let largest = largestSOLTransfer solTransfers;
          fromUserIsTracked = (truthy (amountFrom largest)
                               \<and> the (amountFrom largest) \<in> set (trackedWallets s));
          toUserIsTracked = (truthy (amountTo largest)
                             \<and> the (amountTo largest) \<in> set (trackedWallets s))
      in if fromUserIsTracked \<or> toUserIsTracked then
           \<lparr>totalSOLAmount = num_abs (sol_amount largest),
            isUserBuying = (if toUserIsTracked \<and> \<not> fromUserIsTracked then False
                            else if fromUserIsTracked \<and> \<not> toUserIsTracked then True
                            else False),
            userInvolvedInTransaction = True,
            actualWalletInvolved = (if toUserIsTracked \<and> \<not> fromUserIsTracked then amountTo largest
                                    else if fromUserIsTracked \<and> \<not> toUserIsTracked then amountFrom largest
                                    else None)\<rparr>
         else
           (let userSendingSOL =
                  sum_abs (filter (\<lambda>t. case amountFrom t of None \<Rightarrow> False
                                         | Some a \<Rightarrow> a \<in> set (trackedWallets s)) solTransfers);
                userReceivingSOL =
                  sum_abs (filter (\<lambda>t. case amountTo t of None \<Rightarrow> False
                                         | Some a \<Rightarrow> a \<in> set (trackedWallets s)) solTransfers)
            in \<lparr>totalSOLAmount = sum_abs solTransfers,
                isUserBuying = num_gt userSendingSOL userReceivingSOL,
                userInvolvedInTransaction = True,
                actualWalletInvolved = None\<rparr>))"

text \<open>The circles in front of the amount, as the UTF-8 bytes of U+1F7E2 and U+1F534.\<close>

definition buyIcon :: string where
  "buyIcon = [CHR 0xF0, CHR 0x9F, CHR 0x9F, CHR 0xA2]"

definition sellIcon :: string where
  "sellIcon = [CHR 0xF0, CHR 0x9F, CHR 0x94, CHR 0xB4]"

text \<open>How the \<^verbatim>\<open>try\<close> block ends: it ran to its end (or returned), or an exception was
  thrown in it, with the state reached.\<close>

datatype outcome = Completed backend | Thrown backend

text \<open>Step 8: the filter, then the handler.\<close>

definition filterAndNotify :: "transaction_data \<Rightarrow> backend \<Rightarrow> outcome" where
  "filterAndNotify transactionData s =
     (if shouldShowTransaction (Some transactionData) then
        (case notifyTransaction transactionData s of
           (returned, s1) \<Rightarrow> if returned then Completed s1 else Thrown s1)
      else Completed s)"

text \<open>Steps 4 to 8 of the \<^verbatim>\<open>try\<close> block, from the asset array on.\<close>

definition classifyAndNotify ::
  "string \<Rightarrow> string \<Rightarrow> enhanced_tx \<Rightarrow> string list \<Rightarrow> token_info list \<Rightarrow> backend \<Rightarrow> outcome" where
  "classifyAndNotify sig ts enhancedTx mintAddresses assetInfoArray s =
     (let tokenAmounts = extractTokenAmounts s enhancedTx
      in case selectPrimaryToken assetInfoArray mintAddresses of
           None \<Rightarrow> Completed s
         | Some primaryToken \<Rightarrow>
             (let solTransfers = filter isSOL tokenAmounts;
                  firstWallet = (case trackedWallets s of [] \<Rightarrow> None | w # _ \<Rightarrow> Some w)
              in if solTransfers \<noteq> [] then
                   (let a = analyseSOLTransfers s solTransfers
                    in if num_lt (totalSOLAmount a) (1 / 1000) then Completed s
                       else if userInvolvedInTransaction a then
                         filterAndNotify
                           \<lparr>signature = sig,
                            wallet = (if truthy (actualWalletInvolved a) then actualWalletInvolved a
                                      else firstWallet),
                            token = Some (symbol primaryToken),
                            amount = (if isUserBuying a then buyIcon else sellIcon) @ '' ''
                                     @ formatSOLAmountDirect (totalSOLAmount a),
                            buySell = Some (if isUserBuying a then ''BUY'' else ''SELL''),
                            solAmount = Some (totalSOLAmount a),
                            txType = Some ''enhanced_transaction'', timestamp = ts,
                            mintAddress = None\<rparr> s
                       else Completed s)
                 else
                   filterAndNotify
                     \<lparr>signature = sig, wallet = firstWallet, token = Some (symbol primaryToken),
                      amount = (case tokenAmounts of
                                  [] \<Rightarrow> ''N/A''
                                | mainTransfer # _ \<Rightarrow>
                                    formatTokenAmount
                                      (Some (if humanAmount mainTransfer = [] then ''0''
                                             else humanAmount mainTransfer))
                                      (Digits 9)),
                      buySell = Some ''UNKNOWN'', solAmount = Some (Finite 0),
                      txType = Some ''enhanced_transaction'', timestamp = ts,
                      mintAddress = None\<rparr> s))"

text \<open>\<^verbatim>\<open>type !== 'SWAP' && !type.toLowerCase().includes('swap')\<close>, negated.\<close>

definition isSwapType :: "string \<Rightarrow> bool" where
  "isSwapType t \<longleftrightarrow> t = ''SWAP'' \<or> str_includes (toLowerCase t) ''swap''"

text \<open>
  The \<^verbatim>\<open>try\<close> block of \<^verbatim>\<open>processTransactionUpdate\<close>. An \<open>Inl\<close> is a request whose promise
  is never resolved, so that the processing never goes on. A transaction without
  \<^verbatim>\<open>type\<close> raises a \<^verbatim>\<open>TypeError\<close> at \<^verbatim>\<open>toLowerCase\<close>.
\<close>

definition tryProcess ::
  "string option \<Rightarrow> enhanced_response \<Rightarrow> asset_batch_response \<Rightarrow> int \<Rightarrow> string \<Rightarrow> backend
   \<Rightarrow> error + outcome" where
  "tryProcess sig eresp aresp now ts s =
     (case fetchEnhancedTransactionDirect (the sig) eresp s of
        Inl e \<Rightarrow> Inl e
      | Inr (s1, None) \<Rightarrow>
          (case handleFallbackTransaction sig ts s1 of
             (returned, s2) \<Rightarrow> Inr (if returned then Completed s2 else Thrown s2))
      | Inr (s1, Some enhancedTx) \<Rightarrow>
          (case kind enhancedTx of
             None \<Rightarrow> Inr (Thrown s1)
           | Some t \<Rightarrow>
               if \<not> isSwapType t then Inr (Completed s1)
               else (let mintAddresses = extractMintAddresses enhancedTx
                     in if mintAddresses = [] then Inr (Completed s1)
                        else (case getAssetInfo mintAddresses now aresp s1 of
                                Inl e \<Rightarrow> Inl e
                              | Inr (s2, assetInfoArray) \<Rightarrow>
                                  Inr (classifyAndNotify (the sig) ts enhancedTx mintAddresses
                                         assetInfoArray s2)))))"

text \<open>
  \<^verbatim>\<open>processTransactionUpdate\<close> on one frame, with what the two requests come back with,
  the clock reading \<open>now\<close> and the time stamp \<open>ts\<close> of the events. The \<^verbatim>\<open>catch\<close> hands the
  fallback event over; an exception of that call leaves the method.
\<close>

definition processTransactionUpdate ::
  "frame \<Rightarrow> enhanced_response \<Rightarrow> asset_batch_response \<Rightarrow> int \<Rightarrow> string \<Rightarrow> backend
   \<Rightarrow> error + backend" where
  "processTransactionUpdate data eresp aresp now ts s =
     (case data of
        OtherFrame \<Rightarrow> Inr s
      | LogsNotification sig \<Rightarrow>
          if trackedWallets s = [] then Inr s
          else if \<not> truthy sig then Inr s
          else (case tryProcess sig eresp aresp now ts s of
                  Inl e \<Rightarrow> Inl e
                | Inr (Completed s1) \<Rightarrow> Inr s1
                | Inr (Thrown s1) \<Rightarrow> Inr (snd (handleFallbackTransaction sig ts s1))))"

text \<open>The events handed to the handler among the effects, oldest first.\<close>

fun handed :: "effect list \<Rightarrow> transaction_data list" where
  "handed [] = []"
| "handed (Handed transactionData # es) = transactionData # handed es"
| "handed (e # es) = handed es"

definition handed_by :: "error + backend \<Rightarrow> transaction_data list" where
  "handed_by r = (case r of Inl e \<Rightarrow> [] | Inr s \<Rightarrow> handed (effects s))"

section \<open>A swap scenario\<close>

text \<open>
  A watched wallet and a pool account; a backend that watches the wallet and has a
  handler registered; a swap in which the wallet sends 2 SOL (as lamports of the
  wrapped mint) to the pool and receives the token FOO from it; the reverse leg, in
  which the wallet receives SOL; and the upstream metadata of the two mints.
\<close>

definition wallet_W :: string where
  "wallet_W = ''7xKXtg2CW87d97TXJSDpbD5jBkheTqA83TZRuJosgAsU''"

definition pool_P :: string where
  "pool_P = ''5Q544fKrFoe6tsEbD7S8EmxGTJYAKtTVhAW5Q5pge4j1''"

definition FOO_MINT :: string where
  "FOO_MINT = ''FooXtg2CW87d97TXJSDpbD5jBkheTqA83TZRuJpump''"

definition watching :: backend where
  "watching = initial_backend
     \<lparr>trackedWallets := [wallet_W], onTransactionReceived := Some (\<lambda>transactionData. True)\<rparr>"

definition sol_out_leg :: token_transfer where
  "sol_out_leg =
     \<lparr>mint = Some SOL_MINT, tokenAmount = Some ''2000000000'', tokenStandard = None,
      fromUserAccount = Some wallet_W, toUserAccount = Some pool_P\<rparr>"

definition sol_in_leg :: token_transfer where
  "sol_in_leg =
     \<lparr>mint = Some SOL_MINT, tokenAmount = Some ''2000000000'', tokenStandard = None,
      fromUserAccount = Some pool_P, toUserAccount = Some wallet_W\<rparr>"

definition foo_in_leg :: token_transfer where
  "foo_in_leg =
     \<lparr>mint = Some FOO_MINT, tokenAmount = Some ''1500000'', tokenStandard = Some (Label ''Fungible''),
      fromUserAccount = Some pool_P, toUserAccount = Some wallet_W\<rparr>"

definition swap_tx :: enhanced_tx where
  "swap_tx = \<lparr>kind = Some ''SWAP'', tokenTransfers = [sol_out_leg, foo_in_leg],
              nativeTransfers = [], accountData = []\<rparr>"

definition swap_assets :: asset_batch_response where
  "swap_assets =
     BatchResult
       [Some \<lparr>asset_id = Some SOL_MINT,
               content = Some \<lparr>metadata_symbol = Some ''SOL'', links_image = None\<rparr>\<rparr>,
        Some \<lparr>asset_id = Some FOO_MINT,
               content = Some \<lparr>metadata_symbol = Some ''FOO'', links_image = None\<rparr>\<rparr>]"

section \<open>Observations on the processing\<close>

text \<open>The state an outcome carries.\<close>


fun outcome_state :: "outcome \<Rightarrow> backend" where
  "outcome_state (Completed s) = s"
| "outcome_state (Thrown s) = s"

text \<open>From \<open>s\<close> to \<open>s'\<close> the handler has been handed new events only, each satisfying \<open>P\<close>;
  nothing handed before is lost or reordered.\<close>


definition hands_only :: "(transaction_data \<Rightarrow> bool) \<Rightarrow> backend \<Rightarrow> backend \<Rightarrow> bool" where
  "hands_only P s s' \<longleftrightarrow>
     (\<exists>new. handed (effects s') = handed (effects s) @ new \<and> list_all P new)"

text \<open>An event that the filter admits, or the fallback event of the signature.\<close>


definition admitted_or_fallback :: "string option \<Rightarrow> string \<Rightarrow> transaction_data \<Rightarrow> bool" where
  "admitted_or_fallback sig ts td \<longleftrightarrow>
     shouldShowTransaction (Some td) \<or> (\<exists>x. sig = Some x \<and> td = fallbackTransaction x ts)"

text \<open>The event expected for the swap of the scenario, and the same transaction under
  the type \<^verbatim>\<open>account_change\<close>.\<close>


definition swap_event :: transaction_data where
  "swap_event =
     \<lparr>signature = ''5xGh'', wallet = Some wallet_W, token = Some ''FOO'',
      amount = buyIcon @ '' 2.000 SOL'', buySell = Some ''BUY'', solAmount = Some (Finite 2),
      txType = Some ''enhanced_transaction'', timestamp = ''2024-01-01T00:00:00.000Z'',
      mintAddress = None\<rparr>"

definition account_change_tx :: enhanced_tx where
  "account_change_tx = swap_tx\<lparr>kind := Some ''account_change''\<rparr>"

section \<open>Results about the filter\<close>

text \<open>
  C8. A candidate event whose token symbol is neither \<^verbatim>\<open>SOL\<close> nor \<^verbatim>\<open>WSOL\<close>, has at least
  two characters and is not on the token blacklist is admitted, whatever its wallet
  label, its transaction type and its mint address are.
\<close>

theorem valid_token_admitted_immediately:
  assumes "token td = Some t"
    and "t \<noteq> ''SOL''" and "t \<noteq> ''WSOL''"
    and "2 \<le> length t"
    and "\<not> isTokenBlacklisted (Some t)"
  shows "shouldShowTransaction (Some td) = True"
proof -
  from assms(4) have "t \<noteq> []" by auto
  with assms show ?thesis
    by (simp add: shouldShowTransaction_def)
qed

theorem valid_token_admitted_immediately_witness:
  "shouldShowTransaction
     (Some \<lparr>signature = ''5xGh'', wallet = Some ''Activity Detected'', token = Some ''BONK'',
            amount = ''N/A SOL'', buySell = None, solAmount = None, txType = Some ''fallback'',
            timestamp = ''2024-01-01T00:00:00.000Z'', mintAddress = None\<rparr>) = True
   \<and> isWalletNameBlacklisted (Some ''Activity Detected'')
   \<and> isTransactionTypeBlacklisted (Some ''fallback'')"
proof -
  have nb: "\<not> isTokenBlacklisted (Some ''BONK'')"
    by (simp add: isTokenBlacklisted_def blacklistedTokens_def toUpperCase_def toUpperChar_def
        trim_def white_space_def lower_letters_def upper_letters_def)
  have w: "isWalletNameBlacklisted (Some ''Activity Detected'')"
    by (simp add: isWalletNameBlacklisted_def blacklistedWalletNames_def str_includes_def
        trim_def white_space_def sublist_code)
  have ty: "isTransactionTypeBlacklisted (Some ''fallback'')"
    by (simp add: isTransactionTypeBlacklisted_def blacklistedTransactionTypes_def)
  have "shouldShowTransaction
     (Some \<lparr>signature = ''5xGh'', wallet = Some ''Activity Detected'', token = Some ''BONK'',
            amount = ''N/A SOL'', buySell = None, solAmount = None, txType = Some ''fallback'',
            timestamp = ''2024-01-01T00:00:00.000Z'', mintAddress = None\<rparr>) = True"
    by (rule valid_token_admitted_immediately [where t = "''BONK''"]) (simp_all add: nb)
  with w ty show ?thesis by simp
qed

section \<open>Results about the key rotation\<close>

text \<open>The rotation step on a state whose index lies in the pool: it cannot raise, and it
  leaves every other field alone.\<close>

lemma rotate_ok:
  assumes "currentApiKeyIndex s < length (heliusApiKeys s)"
  shows "\<exists>s'. rotate s = Inr s' \<and> currentApiKeyIndex s' = (currentApiKeyIndex s + 1) mod length (heliusApiKeys s)
     \<and> callsPerKey s' = 0 \<and> heliusApiKeys s' = heliusApiKeys s
     \<and> currentApiKeyIndex s' < length (heliusApiKeys s')
     \<and> maxCallsPerRotation s' = maxCallsPerRotation s
     \<and> tokenInfoCache s' = tokenInfoCache s \<and> cacheExpiry s' = cacheExpiry s
     \<and> trackedWallets s' = trackedWallets s \<and> isConnected s' = isConnected s
     \<and> onTransactionReceived s' = onTransactionReceived s
     \<and> effects s' = effects s @ (if isConnected s then [CloseAndReconnect] else [])"
proof -
  from assms have pos: "0 < length (heliusApiKeys s)" by (cases "heliusApiKeys s") simp_all
  then have lt: "(currentApiKeyIndex s + 1) mod length (heliusApiKeys s) < length (heliusApiKeys s)"
    by (rule mod_less_divisor)
  with assms pos show ?thesis
    by (simp add: rotate_def Let_def getCurrentApiKey_def reconnectWithNewApiKey_def emit_def)
qed

lemma usage_ok:
  assumes "currentApiKeyIndex s < length (heliusApiKeys s)"
  shows "\<exists>s'. rotateApiKeyByUsage s = Inr s' \<and> heliusApiKeys s' = heliusApiKeys s
     \<and> currentApiKeyIndex s' < length (heliusApiKeys s')
     \<and> (if maxCallsPerRotation s \<le> callsPerKey s + 1
         then currentApiKeyIndex s' = (currentApiKeyIndex s + 1) mod length (heliusApiKeys s)
              \<and> callsPerKey s' = 0
              \<and> effects s' = effects s @ (if isConnected s then [CloseAndReconnect] else [])
         else currentApiKeyIndex s' = currentApiKeyIndex s \<and> callsPerKey s' = callsPerKey s + 1
              \<and> effects s' = effects s)
     \<and> maxCallsPerRotation s' = maxCallsPerRotation s
     \<and> tokenInfoCache s' = tokenInfoCache s \<and> cacheExpiry s' = cacheExpiry s
     \<and> trackedWallets s' = trackedWallets s \<and> isConnected s' = isConnected s
     \<and> onTransactionReceived s' = onTransactionReceived s"
proof (cases "maxCallsPerRotation s \<le> callsPerKey s + 1")
  case True
  let ?s1 = "s\<lparr>callsPerKey := callsPerKey s + 1\<rparr>"
  have "currentApiKeyIndex ?s1 < length (heliusApiKeys ?s1)" using assms by simp
  from rotate_ok [OF this] True show ?thesis
    by (auto simp: rotateApiKeyByUsage_def Let_def)
next
  case False
  with assms show ?thesis
    by (simp add: rotateApiKeyByUsage_def Let_def)
qed

lemma initial_backend_index_in_pool:
  "currentApiKeyIndex initial_backend < length (heliusApiKeys initial_backend)"
  by (simp add: initial_backend_def)

text \<open>
  C9. In a state whose key index lies in the pool (as in the constructor's state), a
  rotation by the timer, and a rotation by use once the counter reaches the threshold,
  move the index to its successor modulo the pool size and clear the counter; below the
  threshold the call is only counted. The index stays in the pool, so the current key is
  an element of the pool.
\<close>

theorem rotation_advances_index_circularly:
  assumes "currentApiKeyIndex s < length (heliusApiKeys s)"
  shows "(\<exists>s'. rotateApiKeyByTime s = Inr s'
            \<and> currentApiKeyIndex s' = (currentApiKeyIndex s + 1) mod length (heliusApiKeys s)
            \<and> callsPerKey s' = 0 \<and> heliusApiKeys s' = heliusApiKeys s
            \<and> currentApiKeyIndex s' < length (heliusApiKeys s'))
       \<and> (\<exists>s'. rotateApiKeyByUsage s = Inr s' \<and> heliusApiKeys s' = heliusApiKeys s
            \<and> currentApiKeyIndex s' < length (heliusApiKeys s')
            \<and> (if maxCallsPerRotation s \<le> callsPerKey s + 1
                then currentApiKeyIndex s' = (currentApiKeyIndex s + 1) mod length (heliusApiKeys s)
                     \<and> callsPerKey s' = 0
                else currentApiKeyIndex s' = currentApiKeyIndex s
                     \<and> callsPerKey s' = callsPerKey s + 1))
       \<and> (\<exists>k \<in> set (heliusApiKeys s). getCurrentApiKey s = Some k)"
proof -
  from rotate_ok [OF assms] have t: "\<exists>s'. rotateApiKeyByTime s = Inr s'
            \<and> currentApiKeyIndex s' = (currentApiKeyIndex s + 1) mod length (heliusApiKeys s)
            \<and> callsPerKey s' = 0 \<and> heliusApiKeys s' = heliusApiKeys s
            \<and> currentApiKeyIndex s' < length (heliusApiKeys s')"
    unfolding rotateApiKeyByTime_def by blast
  from usage_ok [OF assms] obtain s' where u: "rotateApiKeyByUsage s = Inr s'" "heliusApiKeys s' = heliusApiKeys s"
     "currentApiKeyIndex s' < length (heliusApiKeys s')"
     "(if maxCallsPerRotation s \<le> callsPerKey s + 1
         then currentApiKeyIndex s' = (currentApiKeyIndex s + 1) mod length (heliusApiKeys s)
              \<and> callsPerKey s' = 0
              \<and> effects s' = effects s @ (if isConnected s then [CloseAndReconnect] else [])
         else currentApiKeyIndex s' = currentApiKeyIndex s \<and> callsPerKey s' = callsPerKey s + 1
              \<and> effects s' = effects s)" by blast
  have u': "\<exists>s'. rotateApiKeyByUsage s = Inr s' \<and> heliusApiKeys s' = heliusApiKeys s
            \<and> currentApiKeyIndex s' < length (heliusApiKeys s')
            \<and> (if maxCallsPerRotation s \<le> callsPerKey s + 1
                then currentApiKeyIndex s' = (currentApiKeyIndex s + 1) mod length (heliusApiKeys s)
                     \<and> callsPerKey s' = 0
                else currentApiKeyIndex s' = currentApiKeyIndex s
                     \<and> callsPerKey s' = callsPerKey s + 1)"
    using u by (intro exI [of _ s']) (simp split: if_splits)
  have k: "\<exists>k \<in> set (heliusApiKeys s). getCurrentApiKey s = Some k"
    using assms by (simp add: getCurrentApiKey_def)
  from t u' k show ?thesis by blast
qed

theorem rotation_advances_index_circularly_witness:
  "currentApiKeyIndex (initial_backend\<lparr>currentApiKeyIndex := 4, callsPerKey := 99\<rparr>)
     < length (heliusApiKeys (initial_backend\<lparr>currentApiKeyIndex := 4, callsPerKey := 99\<rparr>))
   \<and> (\<exists>s'. rotateApiKeyByTime (initial_backend\<lparr>currentApiKeyIndex := 4, callsPerKey := 99\<rparr>) = Inr s'
          \<and> currentApiKeyIndex s' = 0 \<and> callsPerKey s' = 0)
   \<and> (\<exists>s'. rotateApiKeyByUsage (initial_backend\<lparr>currentApiKeyIndex := 4, callsPerKey := 99\<rparr>) = Inr s'
          \<and> currentApiKeyIndex s' = 0 \<and> callsPerKey s' = 0)
   \<and> (\<exists>s'. rotateApiKeyByUsage initial_backend = Inr s'
          \<and> currentApiKeyIndex s' = 0 \<and> callsPerKey s' = 1)
   \<and> getCurrentApiKey (initial_backend\<lparr>currentApiKeyIndex := 4, callsPerKey := 99\<rparr>)
       = Some ''0dc33dba''"
proof -
  let ?s = "initial_backend\<lparr>currentApiKeyIndex := 4, callsPerKey := 99\<rparr>"
  have h: "currentApiKeyIndex ?s < length (heliusApiKeys ?s)"
    by (simp add: initial_backend_def)
  have h0: "currentApiKeyIndex initial_backend < length (heliusApiKeys initial_backend)"
    by (simp add: initial_backend_def)
  have v: "(currentApiKeyIndex ?s + 1) mod length (heliusApiKeys ?s) = 0"
          "maxCallsPerRotation ?s \<le> callsPerKey ?s + 1"
          "\<not> maxCallsPerRotation initial_backend \<le> callsPerKey initial_backend + 1"
          "currentApiKeyIndex initial_backend = 0" "callsPerKey initial_backend + 1 = 1"
    by (simp_all add: initial_backend_def)
  have k: "getCurrentApiKey ?s = Some ''0dc33dba''"
    by (simp add: getCurrentApiKey_def initial_backend_def)
  from rotation_advances_index_circularly [OF h] v
  have a: "(\<exists>s'. rotateApiKeyByTime ?s = Inr s' \<and> currentApiKeyIndex s' = 0 \<and> callsPerKey s' = 0)"
      and b: "(\<exists>s'. rotateApiKeyByUsage ?s = Inr s' \<and> currentApiKeyIndex s' = 0 \<and> callsPerKey s' = 0)"
    by auto
  from rotation_advances_index_circularly [OF h0] v
  have c: "(\<exists>s'. rotateApiKeyByUsage initial_backend = Inr s'
          \<and> currentApiKeyIndex s' = 0 \<and> callsPerKey s' = 1)"
    by auto
  from h a b c k show ?thesis by blast
qed

section \<open>Results about the tracked wallets\<close>

lemma base58_chars_ranges:
  "c \<in> set base58_chars \<longleftrightarrow>
     in_range CHR ''1'' CHR ''9'' c \<or> in_range CHR ''A'' CHR ''H'' c \<or> in_range CHR ''J'' CHR ''N'' c
     \<or> in_range CHR ''P'' CHR ''Z'' c \<or> in_range CHR ''a'' CHR ''k'' c \<or> in_range CHR ''m'' CHR ''z'' c"
  by (cases c) (simp add: base58_chars_def in_range_def)

lemma validateWalletAddress_pattern:
  "validateWalletAddress address = matches_base58_pattern address"
  by (auto simp: validateWalletAddress_def matches_base58_pattern_def list_all_iff
      base58_chars_ranges)

text \<open>
  C10. \<^verbatim>\<open>addWallet\<close> returns true exactly when the address matches the Base58 pattern;
  then the address is in the tracked set, which has gained nothing else; when it
  returns false the whole state, and so the tracked set, is unchanged.
\<close>

theorem addWallet_accepts_exactly_valid_addresses:
  "snd (addWallet a s) = matches_base58_pattern a
   \<and> (matches_base58_pattern a \<longrightarrow>
        set (trackedWallets (fst (addWallet a s))) = insert a (set (trackedWallets s)))
   \<and> (\<not> matches_base58_pattern a \<longrightarrow> fst (addWallet a s) = s)"
  unfolding validateWalletAddress_pattern [symmetric]
  by (auto simp: addWallet_def Let_def connect_def subscribeToWallet_def emit_def set_add_def)

theorem addWallet_accepts_exactly_valid_addresses_witness:
  "matches_base58_pattern ''So11111111111111111111111111111111111111112''
   \<and> snd (addWallet ''So11111111111111111111111111111111111111112'' initial_backend)
   \<and> set (trackedWallets (fst (addWallet ''So11111111111111111111111111111111111111112'' initial_backend)))
       = {''So11111111111111111111111111111111111111112''}
   \<and> \<not> matches_base58_pattern ''0xdeadbeef''
   \<and> \<not> snd (addWallet ''0xdeadbeef'' initial_backend)
   \<and> fst (addWallet ''0xdeadbeef'' initial_backend) = initial_backend"
proof -
  have v: "matches_base58_pattern ''So11111111111111111111111111111111111111112''"
    unfolding validateWalletAddress_pattern [symmetric]
    by (simp add: validateWalletAddress_def base58_chars_def)
  have n: "\<not> matches_base58_pattern ''0xdeadbeef''"
    unfolding validateWalletAddress_pattern [symmetric]
    by (simp add: validateWalletAddress_def)
  have e: "set (trackedWallets initial_backend) = {}"
    by (simp add: initial_backend_def)
  from v n e
    addWallet_accepts_exactly_valid_addresses
      [of "''So11111111111111111111111111111111111111112''" initial_backend]
    addWallet_accepts_exactly_valid_addresses [of "''0xdeadbeef''" initial_backend]
  show ?thesis by simp
qed

section \<open>Results about the metadata cache and the asset batch\<close>


lemma batch_requests_append [simp]:
  "batch_requests (xs @ ys) = batch_requests xs @ batch_requests ys"
  by (induction xs rule: batch_requests.induct) simp_all

lemma truthy_iff: "truthy x \<longleftrightarrow> (\<exists>s. x = Some s \<and> s \<noteq> [])"
  by (cases x) auto

text \<open>The fetch on a state whose key index lies in the pool: what it returns, requests
  and stores.\<close>


lemma fetch_ok:
  assumes "currentApiKeyIndex s < length (heliusApiKeys s)"
  shows "\<exists>s' infos. fetchAssetInfoDirect ids now response s = Inr (s', infos)
      \<and> length infos = length ids
      \<and> batch_requests (effects s') = batch_requests (effects s) @ [ids]
      \<and> tokenInfoCache s' = (case response of BatchResult assets \<Rightarrow> updateCache now (cacheExpiry s) assets (tokenInfoCache s) | _ \<Rightarrow> tokenInfoCache s)
      \<and> infos = (case response of BatchResult assets \<Rightarrow> map (cached_or_placeholder (tokenInfoCache s')) ids | _ \<Rightarrow> map (\<lambda>_. placeholder) ids)"
proof -
  from usage_ok [OF assms] obtain s1 where
    u: "rotateApiKeyByUsage s = Inr s1" "tokenInfoCache s1 = tokenInfoCache s" "cacheExpiry s1 = cacheExpiry s"
       "batch_requests (effects s1) = batch_requests (effects s)"
    by (auto split: if_splits)
  show ?thesis
    by (cases response) (simp_all add: fetchAssetInfoDirect_def u Let_def emit_def)
qed

lemma updateCache_snoc:
  "updateCache now ttl (assets @ [a]) cache = cacheAsset now ttl a (updateCache now ttl assets cache)"
  by (simp add: updateCache_def)

lemma updateCache_Nil: "updateCache now ttl [] cache = cache"
  by (simp add: updateCache_def)

lemma updateCache_other:
  "\<forall>a \<in> set assets. fetched a \<longrightarrow> asset_id (the a) \<noteq> Some k
   \<Longrightarrow> updateCache now ttl assets cache k = cache k"
proof (induction assets rule: rev_induct)
  case Nil
  show ?case by (simp add: updateCache_Nil)
next
  case (snoc a assets)
  then have ih: "updateCache now ttl assets cache k = cache k" by simp
  from snoc.prems have "fetched a \<longrightarrow> asset_id (the a) \<noteq> Some k" by simp
  then show ?case
    by (cases a) (auto simp: updateCache_snoc cacheAsset_def ih fetched_def truthy_iff)
qed

lemma updateCache_fetched:
  assumes "a \<in> set assets" and "fetched a"
  shows "\<exists>b \<in> set assets. fetched b \<and> asset_id (the b) = asset_id (the a)
           \<and> updateCache now ttl assets cache (the (asset_id (the a)))
               = Some (tokenInfo_of now ttl (the (content (the b))))"
  using assms
proof (induction assets rule: rev_induct)
  case Nil
  then show ?case by simp
next
  case (snoc z assets)
  show ?case
  proof (cases "fetched z \<and> asset_id (the z) = asset_id (the a)")
    case True
    then have "updateCache now ttl (assets @ [z]) cache (the (asset_id (the a)))
               = Some (tokenInfo_of now ttl (the (content (the z))))"
      by (cases z) (auto simp: updateCache_snoc cacheAsset_def fetched_def truthy_iff)
    with True show ?thesis by auto
  next
    case False
    with snoc.prems have "a \<in> set assets" by auto
    from snoc.IH [OF this snoc.prems(2)] obtain b where
      b: "b \<in> set assets" "fetched b" "asset_id (the b) = asset_id (the a)"
         "updateCache now ttl assets cache (the (asset_id (the a)))
               = Some (tokenInfo_of now ttl (the (content (the b))))" by blast
    from False snoc.prems(2) have "updateCache now ttl (assets @ [z]) cache (the (asset_id (the a)))
        = updateCache now ttl assets cache (the (asset_id (the a)))"
      by (cases z; cases a) (auto simp: updateCache_snoc cacheAsset_def fetched_def truthy_iff)
    with b show ?thesis by auto
  qed
qed

lemma map_filter_all:
  "length (List.map_filter f xs) = length xs \<longleftrightarrow> (\<forall>x \<in> set xs. f x \<noteq> None)"
proof (induction xs)
  case Nil
  show ?case by (simp add: map_filter_simps)
next
  case (Cons x xs)
  have le: "length (List.map_filter f xs) \<le> length xs"
    by (simp add: map_filter_def)
  show ?case
  proof (cases "f x")
    case None
    with le show ?thesis by (simp add: map_filter_simps)
  next
    case (Some y)
    with Cons show ?thesis by (simp add: map_filter_simps)
  qed
qed

lemma map_filter_all_the:
  "\<forall>x \<in> set xs. f x \<noteq> None \<Longrightarrow> List.map_filter f xs = map (\<lambda>x. the (f x)) xs"
  by (induction xs) (auto simp: map_filter_simps)

lemmas scenario_defs =
  two_cached_def assetC_def initial_backend_def requests_and_result_def getAssetInfo_def
  fetchAssetInfoDirect_def rotateApiKeyByUsage_def rotate_def getCurrentApiKey_def emit_def
  updateCache_def cacheAsset_def tokenInfo_of_def cached_or_placeholder_def placeholder_def
  map_filter_simps Let_def

text \<open>
  C7. \<^verbatim>\<open>fetchAssetInfoDirect\<close> returns one entry per requested id, in the order of the
  request. After a result list, entry \<open>i\<close> is the cache entry of id \<open>i\<close> once the result
  has been stored, and the placeholder when there is none (the id was neither cached
  nor among the stored elements); without a result list, and after an exception, every
  entry is the placeholder. Every stored element's id maps in the cache to the
  metadata of an element of the result with that id, with expiry \<open>now + cacheExpiry\<close>,
  before the entries are read.
\<close>


theorem fetchAssetInfoDirect_same_length_and_order:
  assumes "currentApiKeyIndex s < length (heliusApiKeys s)"
  shows "\<exists>s' infos. fetchAssetInfoDirect ids now response s = Inr (s', infos)
      \<and> length infos = length ids
      \<and> (\<forall>i < length ids.
            infos ! i = (case response of
                           BatchResult assets \<Rightarrow> cached_or_placeholder (tokenInfoCache s') (ids ! i)
                         | _ \<Rightarrow> placeholder))
      \<and> (\<forall>assets i. response = BatchResult assets \<and> i < length ids
            \<and> tokenInfoCache s (ids ! i) = None
            \<and> (\<forall>a \<in> set assets. fetched a \<longrightarrow> asset_id (the a) \<noteq> Some (ids ! i))
            \<longrightarrow> infos ! i = placeholder)
      \<and> (\<forall>assets a. response = BatchResult assets \<and> a \<in> set assets \<and> fetched a
            \<longrightarrow> (\<exists>b \<in> set assets. fetched b \<and> asset_id (the b) = asset_id (the a)
                   \<and> tokenInfoCache s' (the (asset_id (the a)))
                       = Some (tokenInfo_of now (cacheExpiry s) (the (content (the b))))))"
proof -
  from fetch_ok [OF assms, of ids now response] obtain s' infos where
    f: "fetchAssetInfoDirect ids now response s = Inr (s', infos)"
    and len: "length infos = length ids"
    and cache: "tokenInfoCache s' = (case response of BatchResult assets \<Rightarrow> updateCache now (cacheExpiry s) assets (tokenInfoCache s) | _ \<Rightarrow> tokenInfoCache s)"
    and infos: "infos = (case response of BatchResult assets \<Rightarrow> map (cached_or_placeholder (tokenInfoCache s')) ids | _ \<Rightarrow> map (\<lambda>_. placeholder) ids)"
    by blast
  have order: "\<forall>i < length ids.
            infos ! i = (case response of
                           BatchResult assets \<Rightarrow> cached_or_placeholder (tokenInfoCache s') (ids ! i)
                         | _ \<Rightarrow> placeholder)"
    using infos by (cases response) simp_all
  have missing: "\<forall>assets i. response = BatchResult assets \<and> i < length ids
            \<and> tokenInfoCache s (ids ! i) = None
            \<and> (\<forall>a \<in> set assets. fetched a \<longrightarrow> asset_id (the a) \<noteq> Some (ids ! i))
            \<longrightarrow> infos ! i = placeholder"
  proof (intro allI impI)
    fix assets i
    assume h: "response = BatchResult assets \<and> i < length ids
            \<and> tokenInfoCache s (ids ! i) = None
            \<and> (\<forall>a \<in> set assets. fetched a \<longrightarrow> asset_id (the a) \<noteq> Some (ids ! i))"
    then have "updateCache now (cacheExpiry s) assets (tokenInfoCache s) (ids ! i) = tokenInfoCache s (ids ! i)"
      by (intro updateCache_other) simp
    with h cache have "tokenInfoCache s' (ids ! i) = None" by simp
    with h order show "infos ! i = placeholder"
      by (simp add: cached_or_placeholder_def)
  qed
  have stored: "\<forall>assets a. response = BatchResult assets \<and> a \<in> set assets \<and> fetched a
            \<longrightarrow> (\<exists>b \<in> set assets. fetched b \<and> asset_id (the b) = asset_id (the a)
                   \<and> tokenInfoCache s' (the (asset_id (the a)))
                       = Some (tokenInfo_of now (cacheExpiry s) (the (content (the b)))))"
  proof (intro allI impI)
    fix assets a
    assume h: "response = BatchResult assets \<and> a \<in> set assets \<and> fetched a"
    then have "a \<in> set assets" "fetched a" by simp_all
    from updateCache_fetched [OF this, of now "cacheExpiry s" "tokenInfoCache s"] h cache
    show "\<exists>b \<in> set assets. fetched b \<and> asset_id (the b) = asset_id (the a)
                   \<and> tokenInfoCache s' (the (asset_id (the a)))
                       = Some (tokenInfo_of now (cacheExpiry s) (the (content (the b))))"
      by simp
  qed
  from f len order missing stored show ?thesis by blast
qed

theorem fetchAssetInfoDirect_same_length_and_order_witness:
  "currentApiKeyIndex two_cached < length (heliusApiKeys two_cached)
   \<and> fetched (Some assetC) \<and> \<not> fetched None
   \<and> (\<exists>s' infos.
         fetchAssetInfoDirect [''MintA'', ''MintC'', ''MintD''] 2000 (BatchResult [Some assetC, None]) two_cached
           = Inr (s', infos)
         \<and> infos = [\<lparr>symbol = ''FOO'', image = None, expiry = Some 301000\<rparr>,
                     \<lparr>symbol = ''BAR'', image = None, expiry = Some 302000\<rparr>,
                     placeholder]
         \<and> tokenInfoCache s' ''MintC'' = Some \<lparr>symbol = ''BAR'', image = None, expiry = Some 302000\<rparr>)"
proof -
  have h: "currentApiKeyIndex two_cached < length (heliusApiKeys two_cached)"
    by (simp add: two_cached_def initial_backend_def)
  have f: "fetched (Some assetC)" "\<not> fetched None"
    by (simp_all add: fetched_def assetC_def)
  from fetchAssetInfoDirect_same_length_and_order
         [OF h, of "[''MintA'', ''MintC'', ''MintD'']" 2000 "BatchResult [Some assetC, None]"]
  obtain s' infos where
    r: "fetchAssetInfoDirect [''MintA'', ''MintC'', ''MintD''] 2000 (BatchResult [Some assetC, None]) two_cached
           = Inr (s', infos)"
    and len: "length infos = length [''MintA'', ''MintC'', ''MintD'']"
    by blast
  from r have "infos = [\<lparr>symbol = ''FOO'', image = None, expiry = Some 301000\<rparr>,
                     \<lparr>symbol = ''BAR'', image = None, expiry = Some 302000\<rparr>,
                     placeholder]
         \<and> tokenInfoCache s' ''MintC'' = Some \<lparr>symbol = ''BAR'', image = None, expiry = Some 302000\<rparr>"
    by (auto simp: scenario_defs)
  with r h f show ?thesis by blast
qed

text \<open>
  C3, as the specification states it, fails: with two of three ids cached, the request
  carries all three ids.
\<close>


theorem batch_carries_cached_ids_counterexample:
  "requests_and_result
     (getAssetInfo [''MintA'', ''MintB'', ''MintC''] 2000 (BatchResult [Some assetC]) two_cached)
   = Inr ([[''MintA'', ''MintB'', ''MintC'']],
          [\<lparr>symbol = ''FOO'', image = None, expiry = Some 301000\<rparr>,
           \<lparr>symbol = ''BAZ'', image = Some ''b.png'', expiry = Some 301000\<rparr>,
           \<lparr>symbol = ''BAR'', image = None, expiry = Some 302000\<rparr>])
   \<and> [[''MintA'', ''MintB'', ''MintC'']] \<noteq> [[''MintC'']]"
  by (simp add: scenario_defs)

text \<open>
  C3, amended. \<^verbatim>\<open>getAssetInfo\<close> returns one entry per requested id. When every id is
  cached, no request is sent and the cache entries are returned in request order. When
  some id is not cached, one request is sent and it carries the whole list of requested
  ids; after a result list, the entries are the cache entries (or placeholders) of the
  requested ids in request order, read after the result was stored.
\<close>


theorem getAssetInfo_requests_every_id:
  assumes "currentApiKeyIndex s < length (heliusApiKeys s)"
  shows "\<exists>s' infos. getAssetInfo ids now response s = Inr (s', infos)
      \<and> length infos = length ids
      \<and> (if \<forall>m \<in> set ids. tokenInfoCache s m \<noteq> None
         then batch_requests (effects s') = batch_requests (effects s)
              \<and> infos = map (\<lambda>m. the (tokenInfoCache s m)) ids
         else batch_requests (effects s') = batch_requests (effects s) @ [ids]
              \<and> (\<forall>assets. response = BatchResult assets
                    \<longrightarrow> infos = map (cached_or_placeholder (tokenInfoCache s')) ids))"
proof (cases "\<forall>m \<in> set ids. tokenInfoCache s m \<noteq> None")
  case True
  then have "getAssetInfo ids now response s = Inr (s, map (\<lambda>m. the (tokenInfoCache s m)) ids)"
    by (simp add: getAssetInfo_def Let_def map_filter_all map_filter_all_the)
  with True show ?thesis by simp
next
  case False
  then have "length (List.map_filter (tokenInfoCache s) ids) \<noteq> length ids"
    by (simp only: map_filter_all) simp
  then have g: "getAssetInfo ids now response s = fetchAssetInfoDirect ids now response s"
    by (simp add: getAssetInfo_def Let_def)
  from fetch_ok [OF assms, of ids now response] obtain s' infos where
    f: "fetchAssetInfoDirect ids now response s = Inr (s', infos)"
    and len: "length infos = length ids"
    and req: "batch_requests (effects s') = batch_requests (effects s) @ [ids]"
    and infos: "infos = (case response of BatchResult assets \<Rightarrow> map (cached_or_placeholder (tokenInfoCache s')) ids | _ \<Rightarrow> map (\<lambda>_. placeholder) ids)"
    by blast
  from infos have "\<forall>assets. response = BatchResult assets
                    \<longrightarrow> infos = map (cached_or_placeholder (tokenInfoCache s')) ids"
    by simp
  with False g f len req show ?thesis by simp
qed

theorem getAssetInfo_requests_every_id_witness:
  "currentApiKeyIndex two_cached < length (heliusApiKeys two_cached)
   \<and> \<not> (\<forall>m \<in> set [''MintA'', ''MintB'', ''MintC'']. tokenInfoCache two_cached m \<noteq> None)
   \<and> (\<exists>s' infos.
         getAssetInfo [''MintA'', ''MintB'', ''MintC''] 2000 (BatchResult [Some assetC]) two_cached
           = Inr (s', infos)
         \<and> length infos = 3
         \<and> batch_requests (effects s') = [[''MintA'', ''MintB'', ''MintC'']]
         \<and> infos = map (cached_or_placeholder (tokenInfoCache s')) [''MintA'', ''MintB'', ''MintC''])
   \<and> tokenInfoCache two_cached ''MintA'' \<noteq> None
   \<and> tokenInfoCache two_cached ''MintB'' \<noteq> None
   \<and> (\<exists>s' infos.
         getAssetInfo [''MintA'', ''MintB''] 2000 BatchFailed two_cached = Inr (s', infos)
         \<and> batch_requests (effects s') = []
         \<and> infos = [\<lparr>symbol = ''FOO'', image = None, expiry = Some 301000\<rparr>,
                     \<lparr>symbol = ''BAZ'', image = Some ''b.png'', expiry = Some 301000\<rparr>])"
proof -
  have h: "currentApiKeyIndex two_cached < length (heliusApiKeys two_cached)"
    by (simp add: two_cached_def initial_backend_def)
  have c: "tokenInfoCache two_cached ''MintC'' = None"
          "tokenInfoCache two_cached ''MintA'' = Some \<lparr>symbol = ''FOO'', image = None, expiry = Some 301000\<rparr>"
          "tokenInfoCache two_cached ''MintB'' = Some \<lparr>symbol = ''BAZ'', image = Some ''b.png'', expiry = Some 301000\<rparr>"
          "effects two_cached = []"
    by (simp_all add: two_cached_def initial_backend_def)
  from getAssetInfo_requests_every_id
         [OF h, of "[''MintA'', ''MintB'', ''MintC'']" 2000 "BatchResult [Some assetC]"]
       getAssetInfo_requests_every_id [OF h, of "[''MintA'', ''MintB'']" 2000 BatchFailed]
       h c
  show ?thesis by simp
qed

text \<open>
  C2, as the specification states it, fails: an entry that expired at clock 301000 is
  returned at clock 400000, without any request.
\<close>


theorem cache_hit_after_expiry_counterexample:
  "ttl_scenario = Inr ([[''MintC'']], [\<lparr>symbol = ''BAR'', image = None, expiry = Some 301000\<rparr>])
   \<and> \<not> (400000 < (301000 :: int))"
  by (simp add: ttl_scenario_def scenario_defs purgeExpiredCache_def expired_def)

text \<open>
  C2, amended. Storing an element makes its metadata, with expiry \<open>now + ttl\<close>, the
  cache entry of its id. A lookup does not read the clock: at every clock reading \<open>t\<close>
  the entries of cached ids are returned as they are. Only the periodic sweep removes
  entries: the sweep at clock \<open>sweep\<close> removes exactly the entries whose expiry is not
  zero and strictly before \<open>sweep\<close>.
\<close>


theorem cache_entry_lives_until_swept:
  "(truthy (asset_id x) \<and> content x = Some c \<longrightarrow>
      cacheAsset now ttl (Some x) cache (the (asset_id x)) = Some (tokenInfo_of now ttl c)
      \<and> expiry (tokenInfo_of now ttl c) = Some (now + ttl))
   \<and> ((\<forall>m \<in> set ids. tokenInfoCache s m \<noteq> None) \<longrightarrow>
        getAssetInfo ids t response s = Inr (s, map (\<lambda>m. the (tokenInfoCache s m)) ids))
   \<and> tokenInfoCache (purgeExpiredCache sweep s) k
       = (case tokenInfoCache s k of
            None \<Rightarrow> None
          | Some v \<Rightarrow> if expired sweep v then None else Some v)
   \<and> (expiry v = Some e \<and> e \<noteq> 0 \<longrightarrow> expired sweep v = (e < sweep))"
proof -
  have put: "truthy (asset_id x) \<and> content x = Some c \<longrightarrow>
      cacheAsset now ttl (Some x) cache (the (asset_id x)) = Some (tokenInfo_of now ttl c)
      \<and> expiry (tokenInfo_of now ttl c) = Some (now + ttl)"
    by (simp add: cacheAsset_def tokenInfo_of_def)
  have get: "(\<forall>m \<in> set ids. tokenInfoCache s m \<noteq> None) \<longrightarrow>
        getAssetInfo ids t response s = Inr (s, map (\<lambda>m. the (tokenInfoCache s m)) ids)"
    by (simp add: getAssetInfo_def Let_def map_filter_all map_filter_all_the)
  have sweep: "tokenInfoCache (purgeExpiredCache sweep s) k
       = (case tokenInfoCache s k of
            None \<Rightarrow> None
          | Some v \<Rightarrow> if expired sweep v then None else Some v)"
    by (simp add: purgeExpiredCache_def)
  have ex: "expiry v = Some e \<and> e \<noteq> 0 \<longrightarrow> expired sweep v = (e < sweep)"
    by (simp add: expired_def)
  from put get sweep ex show ?thesis by blast
qed

theorem cache_entry_lives_until_swept_witness:
  "truthy (asset_id assetC) \<and> content assetC = Some \<lparr>metadata_symbol = Some ''BAR'', links_image = None\<rparr>
   \<and> cacheAsset 1000 300000 (Some assetC) Map.empty ''MintC''
       = Some \<lparr>symbol = ''BAR'', image = None, expiry = Some 301000\<rparr>
   \<and> tokenInfoCache two_cached ''MintA'' \<noteq> None
   \<and> getAssetInfo [''MintA''] 400000 BatchFailed two_cached
       = Inr (two_cached, [\<lparr>symbol = ''FOO'', image = None, expiry = Some 301000\<rparr>])
   \<and> tokenInfoCache (purgeExpiredCache 301000 two_cached) ''MintA''
       = Some \<lparr>symbol = ''FOO'', image = None, expiry = Some 301000\<rparr>
   \<and> tokenInfoCache (purgeExpiredCache 600000 two_cached) ''MintA'' = None"
proof -
  have a: "truthy (asset_id assetC) \<and> content assetC = Some \<lparr>metadata_symbol = Some ''BAR'', links_image = None\<rparr>"
    by (simp add: assetC_def)
  have c: "tokenInfoCache two_cached ''MintA'' = Some \<lparr>symbol = ''FOO'', image = None, expiry = Some 301000\<rparr>"
    by (simp add: two_cached_def)
  have e: "expiry \<lparr>symbol = ''FOO'', image = None, expiry = Some 301000\<rparr> = Some 301000 \<and> (301000::int) \<noteq> 0"
    by simp
  from cache_entry_lives_until_swept
         [of assetC "\<lparr>metadata_symbol = Some ''BAR'', links_image = None\<rparr>" 1000 300000 Map.empty
             "[''MintA'']" two_cached 400000 BatchFailed 301000 "''MintA''"
             "\<lparr>symbol = ''FOO'', image = None, expiry = Some 301000\<rparr>" 301000]
       cache_entry_lives_until_swept
         [of assetC "\<lparr>metadata_symbol = Some ''BAR'', links_image = None\<rparr>" 1000 300000 Map.empty
             "[''MintA'']" two_cached 400000 BatchFailed 600000 "''MintA''"
             "\<lparr>symbol = ''FOO'', image = None, expiry = Some 301000\<rparr>" 301000]
       a c e
  show ?thesis
    by (simp add: tokenInfo_of_def assetC_def)
qed

section \<open>Results about the formatting of amounts\<close>




























lemma floor_rat_numeral:
  "\<lfloor>(numeral a :: rat) / numeral b\<rfloor> = (numeral a div numeral b :: int)"
  using floor_divide_of_int_eq [of "numeral a" "numeral b", where ?'a = rat] by simp

lemmas number_eval =
  floor_rat_numeral round_half_up_def toFixed_def fixed_digits_def toLocaleString_def
  digits_of.simps formatAmountWithUnits_def formatSOLAmountDirect_def
  formatTokenAmount_def BigInt_of_string_def trim_def white_space_def
  split_sign_def radix_literal_def is_digit_def digit_value_def digits_value_def
  BigInt_pow10_def nearest_double_def bit_length.simps tdiv_def tmod_def
  parseFloat_def parse_exponent_def parseInt_def Let_def




section \<open>Results about the transfer extractor\<close>

text \<open>
  C4. For a token transfer of the reference mint that the extractor records, the
  recorded direction is the opposite of the direction \<^verbatim>\<open>determineBuySell\<close> computes from
  the membership of the two accounts: \<^verbatim>\<open>SELL\<close> when \<^verbatim>\<open>determineBuySell\<close> says buy and
  \<^verbatim>\<open>BUY\<close> when it says sell. So a watched wallet that only receives the reference asset
  gives \<^verbatim>\<open>SELL\<close>, and one that only sends it gives \<^verbatim>\<open>BUY\<close>. The record is an element of
  the extractor's result.
\<close>

theorem reference_asset_direction_inverted:
  assumes "extractTokenTransfer s enhancedTx transfer = Some a"
    and "mint transfer = Some SOL_MINT"
    and "isReceiving = list_ex (account_matches (toUserAccount transfer)) (trackedWallets s)"
    and "isSending = list_ex (account_matches (fromUserAccount transfer)) (trackedWallets s)"
  shows "tradeType a = (if determineBuySell s transfer enhancedTx then ''SELL'' else ''BUY'')
         \<and> tradeType a \<noteq> (if determineBuySell s transfer enhancedTx then ''BUY'' else ''SELL'')
         \<and> (isReceiving \<and> \<not> isSending \<longrightarrow> tradeType a = ''SELL'')
         \<and> (isSending \<and> \<not> isReceiving \<longrightarrow> tradeType a = ''BUY'')
         \<and> (transfer \<in> set (tokenTransfers enhancedTx) \<longrightarrow> a \<in> set (extractTokenAmounts s enhancedTx))"
proof -
  from assms(1,2) have t: "tradeType a = (if determineBuySell s transfer enhancedTx then ''SELL'' else ''BUY'')"
    by (auto simp: extractTokenTransfer_def Let_def split: if_splits)
  then have n: "tradeType a \<noteq> (if determineBuySell s transfer enhancedTx then ''BUY'' else ''SELL'')"
    by simp
  have r: "isReceiving \<and> \<not> isSending \<longrightarrow> tradeType a = ''SELL''"
    using t assms(3,4) by (simp add: determineBuySell_def Let_def)
  have d: "isSending \<and> \<not> isReceiving \<longrightarrow> tradeType a = ''BUY''"
    using t assms(3,4) by (simp add: determineBuySell_def Let_def)
  have m: "transfer \<in> set (tokenTransfers enhancedTx) \<longrightarrow> a \<in> set (extractTokenAmounts s enhancedTx)"
  proof
    assume "transfer \<in> set (tokenTransfers enhancedTx)"
    with assms(1) have "a \<in> set (List.map_filter (extractTokenTransfer s enhancedTx) (tokenTransfers enhancedTx))"
      by (force simp: map_filter_def)
    then show "a \<in> set (extractTokenAmounts s enhancedTx)"
      by (simp add: extractTokenAmounts_def Let_def)
  qed
  from t n r d m show ?thesis by blast
qed

lemmas swap_scenario =
  wallet_W_def pool_P_def FOO_MINT_def SOL_MINT_def watching_def sol_out_leg_def sol_in_leg_def
  foo_in_leg_def swap_tx_def swap_assets_def initial_backend_def

lemmas extract_eval =
  extractTokenTransfer_def determineBuySell_def account_matches_def str_includes_def
  sublist_code or_nine_def

theorem reference_asset_direction_inverted_witness:
  "extractTokenTransfer watching swap_tx sol_out_leg
     = Some \<lparr>amountMint = Some SOL_MINT, humanAmount = ''2 tokens'', sol_amount = Finite 2,
             tradeType = ''BUY'', isSOL = True,
             amountFrom = Some wallet_W, amountTo = Some pool_P\<rparr>
   \<and> mint sol_out_leg = Some SOL_MINT
   \<and> list_ex (account_matches (fromUserAccount sol_out_leg)) (trackedWallets watching)
   \<and> \<not> list_ex (account_matches (toUserAccount sol_out_leg)) (trackedWallets watching)
   \<and> determineBuySell watching sol_out_leg swap_tx = False
   \<and> sol_out_leg \<in> set (tokenTransfers swap_tx)
   \<and> tradeType (hd (extractTokenAmounts watching swap_tx)) = ''BUY''
   \<and> map_option tradeType (extractTokenTransfer watching swap_tx sol_in_leg) = Some ''SELL''
   \<and> determineBuySell watching sol_in_leg swap_tx = True"
proof -
  have out: "extractTokenTransfer watching swap_tx sol_out_leg
     = Some \<lparr>amountMint = Some SOL_MINT, humanAmount = ''2 tokens'', sol_amount = Finite 2,
             tradeType = ''BUY'', isSOL = True,
             amountFrom = Some wallet_W, amountTo = Some pool_P\<rparr>"
    by (simp add: extract_eval swap_scenario number_eval split del: if_split)
  have m: "mint sol_out_leg = Some SOL_MINT" "mint sol_in_leg = Some SOL_MINT"
    by (simp_all add: swap_scenario)
  have snd: "list_ex (account_matches (fromUserAccount sol_out_leg)) (trackedWallets watching)"
    by (simp add: extract_eval swap_scenario)
  have rcv: "\<not> list_ex (account_matches (toUserAccount sol_out_leg)) (trackedWallets watching)"
    by (simp add: extract_eval swap_scenario)
  have mem: "sol_out_leg \<in> set (tokenTransfers swap_tx)"
    by (simp add: swap_tx_def)
  have dout: "determineBuySell watching sol_out_leg swap_tx = False"
    by (simp add: extract_eval swap_scenario)
  have din: "determineBuySell watching sol_in_leg swap_tx = True"
    by (simp add: extract_eval swap_scenario)
  have "\<exists>b. extractTokenTransfer watching swap_tx sol_in_leg = Some b"
    by (simp add: extractTokenTransfer_def sol_in_leg_def Let_def)
  then obtain b where inn: "extractTokenTransfer watching swap_tx sol_in_leg = Some b" ..
  have hdx: "hd (extractTokenAmounts watching swap_tx)
     = \<lparr>amountMint = Some SOL_MINT, humanAmount = ''2 tokens'', sol_amount = Finite 2,
             tradeType = ''BUY'', isSOL = True,
             amountFrom = Some wallet_W, amountTo = Some pool_P\<rparr>"
    using out by (simp add: extractTokenAmounts_def swap_tx_def map_filter_simps Let_def)
  from reference_asset_direction_inverted [OF out m(1) refl refl]
       reference_asset_direction_inverted [OF inn m(2) refl refl]
       out m snd rcv mem dout din inn hdx
  show ?thesis by simp
qed

section \<open>Results about the processing of a notification\<close>

text \<open>Requests and rotations hand nothing to the handler.\<close>


lemma handed_append [simp]: "handed (xs @ ys) = handed xs @ handed ys"
  by (induction xs rule: handed.induct) simp_all

lemma rotate_handed:
  "rotate s = Inr s1 \<Longrightarrow> handed (effects s1) = handed (effects s)"
  by (auto simp: rotate_def Let_def reconnectWithNewApiKey_def emit_def split: if_splits)

lemma usage_handed:
  "rotateApiKeyByUsage s = Inr s1 \<Longrightarrow> handed (effects s1) = handed (effects s)"
  by (auto simp: rotateApiKeyByUsage_def Let_def dest!: rotate_handed split: if_splits)

lemma fetchEnhanced_handed:
  "fetchEnhancedTransactionDirect sig response s = Inr (s1, r)
   \<Longrightarrow> handed (effects s1) = handed (effects s)"
  by (auto simp: fetchEnhancedTransactionDirect_def emit_def dest!: usage_handed split: sum.splits)

lemma fetchAssets_handed:
  "fetchAssetInfoDirect ids now response s = Inr (s1, infos)
   \<Longrightarrow> handed (effects s1) = handed (effects s)"
  by (auto simp: fetchAssetInfoDirect_def emit_def Let_def dest!: usage_handed
      split: sum.splits asset_batch_response.splits)

lemma getAssetInfo_handed:
  "getAssetInfo ids now response s = Inr (s1, infos)
   \<Longrightarrow> handed (effects s1) = handed (effects s)"
  by (auto simp: getAssetInfo_def Let_def dest!: fetchAssets_handed split: if_splits)

lemma hands_only_refl: "hands_only P s s"
  by (simp add: hands_only_def)

lemma hands_only_same:
  "handed (effects s') = handed (effects s) \<Longrightarrow> hands_only P s s'"
  by (simp add: hands_only_def)

lemma hands_only_trans:
  "hands_only P s s1 \<Longrightarrow> hands_only P s1 s2 \<Longrightarrow> hands_only P s s2"
  unfolding hands_only_def
proof (elim exE conjE)
  fix new1 new2
  assume a: "handed (effects s1) = handed (effects s) @ new1" "list_all P new1"
    and b: "handed (effects s2) = handed (effects s1) @ new2" "list_all P new2"
  then have "handed (effects s2) = handed (effects s) @ (new1 @ new2) \<and> list_all P (new1 @ new2)"
    by simp
  then show "\<exists>new. handed (effects s2) = handed (effects s) @ new \<and> list_all P new" by blast
qed

lemma notify_hands:
  "P td \<Longrightarrow> hands_only P s (snd (notifyTransaction td s))"
  by (auto simp: notifyTransaction_def hands_only_def emit_def split: option.splits)

lemma fallback_hands:
  assumes "\<And>x. sig = Some x \<Longrightarrow> P (fallbackTransaction x ts)"
  shows "hands_only P s (snd (handleFallbackTransaction sig ts s))"
proof (cases "truthy sig")
  case False
  then show ?thesis by (simp add: handleFallbackTransaction_def hands_only_refl)
next
  case True
  then obtain x where x: "sig = Some x" by (cases sig) auto
  from assms [OF x] have "P (fallbackTransaction (the sig) ts)" using x by simp
  from notify_hands [of P, OF this] True show ?thesis
    by (simp add: handleFallbackTransaction_def)
qed

lemma filterAndNotify_hands:
  "hands_only (\<lambda>td. shouldShowTransaction (Some td)) s (outcome_state (filterAndNotify td s))"
proof (cases "shouldShowTransaction (Some td)")
  case False
  then show ?thesis by (simp add: filterAndNotify_def hands_only_refl)
next
  case True
  from notify_hands [of "\<lambda>td. shouldShowTransaction (Some td)" td s, OF True]
  show ?thesis using True
    by (auto simp: filterAndNotify_def split: prod.splits)
qed

lemma classifyAndNotify_hands:
  "hands_only (\<lambda>td. shouldShowTransaction (Some td)) s
     (outcome_state (classifyAndNotify sig ts enhancedTx mintAddresses assetInfoArray s))"
  unfolding classifyAndNotify_def Let_def
  by (auto simp: hands_only_refl filterAndNotify_hands split: option.splits)


lemma hands_only_mono:
  "hands_only P s s' \<Longrightarrow> (\<And>td. P td \<Longrightarrow> Q td) \<Longrightarrow> hands_only Q s s'"
  unfolding hands_only_def list_all_iff by blast

text \<open>The \<^verbatim>\<open>try\<close> block, and then the whole method, hand over only admitted events and
  fallback events.\<close>


lemma tryProcess_hands:
  assumes "tryProcess sig eresp aresp now ts s = Inr out"
  shows "hands_only (admitted_or_fallback sig ts) s (outcome_state out)"
proof -
  let ?P = "admitted_or_fallback sig ts"
  have fb: "\<And>s0. hands_only ?P s0 (snd (handleFallbackTransaction sig ts s0))"
    by (rule fallback_hands) (simp add: admitted_or_fallback_def)
  have cl: "\<And>sg tx ms infos s0.
      hands_only ?P s0 (outcome_state (classifyAndNotify sg ts tx ms infos s0))"
    by (rule hands_only_mono [OF classifyAndNotify_hands]) (simp add: admitted_or_fallback_def)
  from assms obtain s1 r where
    f: "fetchEnhancedTransactionDirect (the sig) eresp s = Inr (s1, r)"
    by (auto simp: tryProcess_def split: sum.splits)
  from fetchEnhanced_handed [OF f] have h1: "hands_only ?P s s1"
    by (rule hands_only_same)
  show ?thesis
  proof (cases r)
    case None
    with assms f have "outcome_state out = snd (handleFallbackTransaction sig ts s1)"
      by (auto simp: tryProcess_def split: prod.splits)
    with fb [of s1] h1 show ?thesis by (auto intro: hands_only_trans)
  next
    case (Some enhancedTx)
    show ?thesis
    proof (cases "kind enhancedTx")
      case None
      with assms f Some have "outcome_state out = s1"
        by (auto simp: tryProcess_def)
      with h1 show ?thesis by simp
    next
      case (Some t)
      note k = this
      show ?thesis
      proof (cases "\<not> isSwapType t \<or> extractMintAddresses enhancedTx = []")
        case True
        with assms f \<open>r = Some enhancedTx\<close> k have "outcome_state out = s1"
          by (auto simp: tryProcess_def Let_def split: if_splits)
        with h1 show ?thesis by simp
      next
        case False
        with assms f \<open>r = Some enhancedTx\<close> k obtain s2 infos where
          g: "getAssetInfo (extractMintAddresses enhancedTx) now aresp s1 = Inr (s2, infos)"
          and o: "out = classifyAndNotify (the sig) ts enhancedTx (extractMintAddresses enhancedTx) infos s2"
          by (auto simp: tryProcess_def Let_def split: sum.splits)
        from getAssetInfo_handed [OF g] have h2: "hands_only ?P s1 s2"
          by (rule hands_only_same)
        from cl [where sg = "the sig" and tx = enhancedTx
                   and ms = "extractMintAddresses enhancedTx" and infos = infos and ?s0.0 = s2] o
        have h3: "hands_only ?P s2 (outcome_state out)" by simp
        from h1 h2 h3 show ?thesis by (blast intro: hands_only_trans)
      qed
    qed
  qed
qed

lemma process_hands:
  assumes "processTransactionUpdate data eresp aresp now ts s = Inr s'"
  shows "\<exists>sig. hands_only (admitted_or_fallback sig ts) s s'
               \<and> (sig \<noteq> None \<longrightarrow> data = LogsNotification sig)"
proof (cases data)
  case OtherFrame
  with assms have "s' = s" by (simp add: processTransactionUpdate_def)
  then have "hands_only (admitted_or_fallback None ts) s s'" by (simp add: hands_only_refl)
  then show ?thesis by blast
next
  case (LogsNotification sig)
  show ?thesis
  proof (cases "trackedWallets s = [] \<or> \<not> truthy sig")
    case True
    with assms LogsNotification have "s' = s"
      by (auto simp: processTransactionUpdate_def split: if_splits)
    then have "hands_only (admitted_or_fallback sig ts) s s'" by (simp add: hands_only_refl)
    with LogsNotification show ?thesis by blast
  next
    case False
    with assms LogsNotification obtain out where
      t: "tryProcess sig eresp aresp now ts s = Inr out"
      by (auto simp: processTransactionUpdate_def split: sum.splits)
    from tryProcess_hands [OF t] have h: "hands_only (admitted_or_fallback sig ts) s (outcome_state out)" .
    have fb: "hands_only (admitted_or_fallback sig ts) (outcome_state out)
                (snd (handleFallbackTransaction sig ts (outcome_state out)))"
      by (rule fallback_hands) (simp add: admitted_or_fallback_def)
    have "hands_only (admitted_or_fallback sig ts) s s'"
    proof (cases out)
      case (Completed s1)
      with assms LogsNotification False t have "s' = s1"
        by (auto simp: processTransactionUpdate_def)
      with h Completed show ?thesis by simp
    next
      case (Thrown s1)
      with assms LogsNotification False t have "s' = snd (handleFallbackTransaction sig ts s1)"
        by (auto simp: processTransactionUpdate_def)
      with h fb Thrown show ?thesis by (auto intro: hands_only_trans)
    qed
    with LogsNotification show ?thesis by blast
  qed
qed

lemma unknown_blacklisted: "isTokenBlacklisted (Some ''Unknown'')"
  by (simp add: isTokenBlacklisted_def blacklistedTokens_def toUpperCase_def toUpperChar_def
      trim_def white_space_def lower_letters_def upper_letters_def)

lemma fallback_rejected: "\<not> shouldShowTransaction (Some (fallbackTransaction sig ts))"
  by (simp add: shouldShowTransaction_def fallbackTransaction_def unknown_blacklisted)

lemmas pipeline_eval =
  processTransactionUpdate_def tryProcess_def fetchEnhancedTransactionDirect_def
  rotateApiKeyByUsage_def rotate_def getCurrentApiKey_def emit_def
  handleFallbackTransaction_def notifyTransaction_def handed_by_def isSwapType_def
  toLowerCase_def toLowerChar_def toUpperCase_def toUpperChar_def upper_letters_def
  lower_letters_def extractMintAddresses_def set_add_def getAssetInfo_def
  fetchAssetInfoDirect_def updateCache_def cacheAsset_def tokenInfo_of_def
  cached_or_placeholder_def placeholder_def map_filter_simps classifyAndNotify_def
  extractTokenAmounts_def selectPrimaryToken_def validNonSOLToken_def
  analyseSOLTransfers_def largestSOLTransfer_def sum_abs_def filterAndNotify_def

text \<open>The swap of the scenario, step by step: the wallet sends 2 SOL and receives FOO,
  and the handler is handed one event, a \<^verbatim>\<open>BUY\<close> of FOO for 2 SOL.\<close>


lemma swap_mints: "extractMintAddresses swap_tx = [SOL_MINT, FOO_MINT]"
  by (simp add: extractMintAddresses_def set_add_def swap_scenario)

lemma swap_amounts:
  "trackedWallets s = [wallet_W] \<Longrightarrow>
   extractTokenAmounts s swap_tx =
     [\<lparr>amountMint = Some SOL_MINT, humanAmount = ''2 tokens'', sol_amount = Finite 2,
       tradeType = ''BUY'', isSOL = True, amountFrom = Some wallet_W, amountTo = Some pool_P\<rparr>,
      \<lparr>amountMint = Some FOO_MINT, humanAmount = ''1.5 tokens'', sol_amount = Finite 0,
       tradeType = ''BUY'', isSOL = False, amountFrom = Some pool_P, amountTo = Some wallet_W\<rparr>]"
  by (simp add: extractTokenAmounts_def map_filter_simps extract_eval number_eval
      wallet_W_def pool_P_def FOO_MINT_def SOL_MINT_def sol_out_leg_def foo_in_leg_def swap_tx_def
      split del: if_split)


lemma swap_primary:
  "selectPrimaryToken
     [\<lparr>symbol = ''SOL'', image = None, expiry = Some 301000\<rparr>,
      \<lparr>symbol = ''FOO'', image = None, expiry = Some 301000\<rparr>] [SOL_MINT, FOO_MINT]
   = Some \<lparr>symbol = ''FOO'', image = None, expiry = Some 301000\<rparr>"
  by (simp add: selectPrimaryToken_def validNonSOLToken_def trim_def white_space_def
      SOL_MINT_def FOO_MINT_def Let_def)

lemma foo_admitted: "token td = Some ''FOO'' \<Longrightarrow> shouldShowTransaction (Some td)"
  by (simp add: shouldShowTransaction_def isTokenBlacklisted_def
      blacklistedTokens_def toUpperCase_def toUpperChar_def trim_def white_space_def
      lower_letters_def upper_letters_def)

lemma two_sol: "formatSOLAmountDirect (Finite 2) = ''2.000 SOL''"
  by (simp add: number_eval split del: if_split)

lemma swap_classify:
  assumes "trackedWallets s = [wallet_W]" and "onTransactionReceived s = Some (\<lambda>transactionData. True)"
  shows "classifyAndNotify ''5xGh'' ''2024-01-01T00:00:00.000Z'' swap_tx [SOL_MINT, FOO_MINT]
           [\<lparr>symbol = ''SOL'', image = None, expiry = Some 301000\<rparr>,
            \<lparr>symbol = ''FOO'', image = None, expiry = Some 301000\<rparr>] s
         = Completed (emit (Handed swap_event) s)"
proof -
  have w: "wallet_W \<noteq> []" by (simp add: wallet_W_def)
  have an: "analyseSOLTransfers s
              [\<lparr>amountMint = Some SOL_MINT, humanAmount = ''2 tokens'', sol_amount = Finite 2,
                tradeType = ''BUY'', isSOL = True, amountFrom = Some wallet_W, amountTo = Some pool_P\<rparr>]
            = \<lparr>totalSOLAmount = Finite 2, isUserBuying = True, userInvolvedInTransaction = True,
               actualWalletInvolved = Some wallet_W\<rparr>"
    using assms(1)
    by (simp add: analyseSOLTransfers_def largestSOLTransfer_def wallet_W_def pool_P_def Let_def)
  show ?thesis
    unfolding classifyAndNotify_def swap_amounts [OF assms(1)] swap_primary
    by (simp add: an assms w two_sol filterAndNotify_def foo_admitted swap_event_def
        notifyTransaction_def Let_def)
qed

lemma swap_process:
  "handed_by (processTransactionUpdate (LogsNotification (Some ''5xGh'')) (EnhancedData [swap_tx])
                swap_assets 1000 ''2024-01-01T00:00:00.000Z'' watching)
   = [swap_event]"
proof -
  have k: "kind swap_tx = Some ''SWAP''" by (simp add: swap_tx_def)
  have sw: "isSwapType ''SWAP''" by (simp add: isSwapType_def)
  have ne: "[SOL_MINT, FOO_MINT] \<noteq> []" by simp
  have d: "SOL_MINT \<noteq> FOO_MINT" "FOO_MINT \<noteq> SOL_MINT" "SOL_MINT \<noteq> []" "FOO_MINT \<noteq> []"
    by (simp_all add: SOL_MINT_def FOO_MINT_def)
  show ?thesis
    unfolding processTransactionUpdate_def tryProcess_def
    by (simp add: k sw swap_mints d fetchEnhancedTransactionDirect_def rotateApiKeyByUsage_def
        getCurrentApiKey_def emit_def getAssetInfo_def fetchAssetInfoDirect_def map_filter_simps
        updateCache_def cacheAsset_def tokenInfo_of_def cached_or_placeholder_def
        swap_assets_def watching_def initial_backend_def swap_classify handed_by_def Let_def)
qed

text \<open>
  C1, as the specification states it, fails: when the enrichment fails, and when the
  processing raises an error (here a transaction without a type), the handler is
  handed the fallback event, which the filter rejects.
\<close>


theorem fallback_bypasses_filter_counterexample:
  "handed_by (processTransactionUpdate (LogsNotification (Some ''5xGh'')) EnhancedFailed
                BatchFailed 1000 ''2024-01-01T00:00:00.000Z'' watching)
     = [fallbackTransaction ''5xGh'' ''2024-01-01T00:00:00.000Z'']
   \<and> handed_by (processTransactionUpdate (LogsNotification (Some ''5xGh''))
                  (EnhancedData [swap_tx\<lparr>kind := None\<rparr>])
                  BatchFailed 1000 ''2024-01-01T00:00:00.000Z'' watching)
     = [fallbackTransaction ''5xGh'' ''2024-01-01T00:00:00.000Z'']
   \<and> \<not> shouldShowTransaction (Some (fallbackTransaction ''5xGh'' ''2024-01-01T00:00:00.000Z''))"
proof -
  have a: "handed_by (processTransactionUpdate (LogsNotification (Some ''5xGh'')) EnhancedFailed
                BatchFailed 1000 ''2024-01-01T00:00:00.000Z'' watching)
     = [fallbackTransaction ''5xGh'' ''2024-01-01T00:00:00.000Z'']"
    by (simp add: pipeline_eval watching_def initial_backend_def)
  have b: "handed_by (processTransactionUpdate (LogsNotification (Some ''5xGh''))
                  (EnhancedData [swap_tx\<lparr>kind := None\<rparr>])
                  BatchFailed 1000 ''2024-01-01T00:00:00.000Z'' watching)
     = [fallbackTransaction ''5xGh'' ''2024-01-01T00:00:00.000Z'']"
    by (simp add: pipeline_eval watching_def initial_backend_def)
  from a b fallback_rejected show ?thesis by blast
qed

text \<open>
  C1, amended. Every event that \<^verbatim>\<open>processTransactionUpdate\<close> hands to the handler is
  either an event that \<^verbatim>\<open>shouldShowTransaction\<close> admits (the enhanced path calls the
  handler only behind the filter) or the fallback event of the notification's
  signature, which \<^verbatim>\<open>handleFallbackTransaction\<close> hands over without consulting the
  filter on enrichment failure and on a processing error. The filter rejects every
  fallback event.
\<close>


theorem handed_events_admitted_or_fallback:
  assumes "processTransactionUpdate data eresp aresp now ts s = Inr s'"
  shows "(\<exists>new. handed (effects s') = handed (effects s) @ new
            \<and> (\<forall>td \<in> set new.
                  shouldShowTransaction (Some td)
                  \<or> (\<exists>sig. data = LogsNotification (Some sig) \<and> td = fallbackTransaction sig ts)))
         \<and> \<not> shouldShowTransaction (Some (fallbackTransaction sig' ts'))"
proof -
  from process_hands [OF assms] obtain sig new where
    n: "handed (effects s') = handed (effects s) @ new"
    and a: "list_all (admitted_or_fallback sig ts) new"
    and d: "sig \<noteq> None \<longrightarrow> data = LogsNotification sig"
    unfolding hands_only_def by blast
  have "\<forall>td \<in> set new.
          shouldShowTransaction (Some td)
          \<or> (\<exists>x. data = LogsNotification (Some x) \<and> td = fallbackTransaction x ts)"
    using a d unfolding list_all_iff admitted_or_fallback_def by blast
  with n fallback_rejected show ?thesis by blast
qed

theorem handed_events_admitted_or_fallback_witness:
  "handed_by (processTransactionUpdate (LogsNotification (Some ''5xGh'')) (EnhancedData [swap_tx])
                swap_assets 1000 ''2024-01-01T00:00:00.000Z'' watching)
     = [swap_event]
   \<and> shouldShowTransaction (Some swap_event)
   \<and> swap_event \<noteq> fallbackTransaction ''5xGh'' ''2024-01-01T00:00:00.000Z''"
proof -
  let ?r = "processTransactionUpdate (LogsNotification (Some ''5xGh'')) (EnhancedData [swap_tx])
              swap_assets 1000 ''2024-01-01T00:00:00.000Z'' watching"
  from swap_process obtain s' where r: "?r = Inr s'" and h: "handed (effects s') = [swap_event]"
    by (cases ?r) (simp_all add: handed_by_def)
  have w: "handed (effects watching) = []"
    by (simp add: watching_def initial_backend_def)
  have d: "swap_event \<noteq> fallbackTransaction ''5xGh'' ''2024-01-01T00:00:00.000Z''"
    by (simp add: swap_event_def fallbackTransaction_def)
  from handed_events_admitted_or_fallback [OF r] obtain new where
    n: "handed (effects s') = handed (effects watching) @ new"
    and a: "\<forall>td \<in> set new.
              shouldShowTransaction (Some td)
              \<or> (\<exists>sig. LogsNotification (Some ''5xGh'') = LogsNotification (Some sig)
                        \<and> td = fallbackTransaction sig ''2024-01-01T00:00:00.000Z'')"
    by blast
  from n h w have "new = [swap_event]" by simp
  with a d have "shouldShowTransaction (Some swap_event)" by auto
  with swap_process d show ?thesis by simp
qed

text \<open>
  C6. When the enrichment returns a transaction whose type is a string that is neither
  \<^verbatim>\<open>SWAP\<close> nor contains \<^verbatim>\<open>swap\<close> in any letter case, the processing ends there: the
  handler is handed nothing, no asset batch is requested and the cache is left as it
  was, whatever the transfers of the transaction are. The type \<^verbatim>\<open>account_change\<close> is
  such a type.
\<close>


theorem non_swap_emits_nothing:
  assumes "currentApiKeyIndex s < length (heliusApiKeys s)"
    and "kind enhancedTx = Some t"
    and "\<not> isSwapType t"
  shows "\<exists>s'. processTransactionUpdate (LogsNotification sig) (EnhancedData (enhancedTx # rest))
                 aresp now ts s = Inr s'
              \<and> handed (effects s') = handed (effects s)
              \<and> batch_requests (effects s') = batch_requests (effects s)
              \<and> tokenInfoCache s' = tokenInfoCache s"
proof (cases "trackedWallets s = [] \<or> \<not> truthy sig")
  case True
  then show ?thesis by (auto simp: processTransactionUpdate_def)
next
  case False
  from usage_ok [OF assms(1)] obtain s1 where
    u: "rotateApiKeyByUsage s = Inr s1" "tokenInfoCache s1 = tokenInfoCache s"
       "handed (effects s1) = handed (effects s)"
       "batch_requests (effects s1) = batch_requests (effects s)"
    by (auto split: if_splits)
  let ?s2 = "emit (EnhancedRequest (getCurrentApiKey s1) (the sig)) s1"
  have t: "tryProcess sig (EnhancedData (enhancedTx # rest)) aresp now ts s = Inr (Completed ?s2)"
    using assms(2,3) u(1) by (simp add: tryProcess_def fetchEnhancedTransactionDirect_def)
  have "processTransactionUpdate (LogsNotification sig) (EnhancedData (enhancedTx # rest))
          aresp now ts s = Inr ?s2"
    using False t by (simp add: processTransactionUpdate_def)
  with u show ?thesis by (simp add: emit_def)
qed

theorem non_swap_emits_nothing_witness:
  "currentApiKeyIndex watching < length (heliusApiKeys watching)
   \<and> kind account_change_tx = Some ''account_change''
   \<and> \<not> isSwapType ''account_change''
   \<and> tokenTransfers account_change_tx = tokenTransfers swap_tx
   \<and> handed_by (processTransactionUpdate (LogsNotification (Some ''5xGh''))
                  (EnhancedData [account_change_tx]) swap_assets 1000
                  ''2024-01-01T00:00:00.000Z'' watching) = []"
proof -
  have i: "currentApiKeyIndex watching < length (heliusApiKeys watching)"
    by (simp add: watching_def initial_backend_def)
  have k: "kind account_change_tx = Some ''account_change''"
    by (simp add: account_change_tx_def)
  have n: "\<not> isSwapType ''account_change''"
    by (simp add: isSwapType_def toLowerCase_def toLowerChar_def upper_letters_def
        lower_letters_def str_includes_def sublist_code)
  have t: "tokenTransfers account_change_tx = tokenTransfers swap_tx"
    by (simp add: account_change_tx_def)
  have w: "handed (effects watching) = []"
    by (simp add: watching_def initial_backend_def)
  from non_swap_emits_nothing [OF i k n, of "Some ''5xGh''" "[]" swap_assets 1000
         "''2024-01-01T00:00:00.000Z''"] w
  have "handed_by (processTransactionUpdate (LogsNotification (Some ''5xGh''))
                  (EnhancedData [account_change_tx]) swap_assets 1000
                  ''2024-01-01T00:00:00.000Z'' watching) = []"
    by (auto simp: handed_by_def)
  with i k n t show ?thesis by simp
qed

end
